theory Spec2Isabelle
  imports Main
begin

section \<open>JavaScript strings and arrays\<close>

text \<open>
  A JavaScript string is modelled as the list of its code units. Isabelle's \<open>char\<close> has
  eight bits, so the strings covered are those whose code units lie below 256; in that
  range the characters removed by \<open>String.prototype.trim\<close> (white space and line
  terminators) are TAB, LF, VT, FF, CR, SPACE and NBSP.
\<close>

definition isWhiteSpace :: "char \<Rightarrow> bool" where
  "isWhiteSpace c =
     (c = CHR 0x09 \<or> c = CHR 0x0A \<or> c = CHR 0x0B \<or> c = CHR 0x0C \<or> c = CHR 0x0D
      \<or> c = CHR 0x20 \<or> c = CHR 0xA0)"

text \<open>\<open>s.trim()\<close>\<close>

definition trim :: "string \<Rightarrow> string" where
  "trim s = rev (dropWhile isWhiteSpace (rev (dropWhile isWhiteSpace s)))"

text \<open>
  \<open>s.split(',')\<close> with a one-character separator: a scan that closes the current
  field at every separator. The empty string gives one empty field.
\<close>

fun splitOn :: "char \<Rightarrow> string \<Rightarrow> string \<Rightarrow> string list" where
  "splitOn sep cur [] = [cur]"
| "splitOn sep cur (c # cs) =
     (if c = sep then cur # splitOn sep [] cs else splitOn sep (cur @ [c]) cs)"

definition split_comma :: "string \<Rightarrow> string list" where
  "split_comma s = splitOn (CHR '','') [] s"

text \<open>
  \<open>csv.split(/\r?\n/)\<close>: at every position the pattern is tried; a CR directly followed
  by LF is consumed together with it, a lone LF is consumed alone, and a CR that is not
  followed by LF stays in the line.
\<close>

fun splitLines :: "string \<Rightarrow> string \<Rightarrow> string list" where
  "splitLines cur [] = [cur]"
| "splitLines cur [c] = (if c = CHR 0x0A then [cur, []] else [cur @ [c]])"
| "splitLines cur (c # d # cs) =
     (if c = CHR 0x0D \<and> d = CHR 0x0A then cur # splitLines [] cs
      else if c = CHR 0x0A then cur # splitLines [] (d # cs)
      else splitLines (cur @ [c]) (d # cs))"

text \<open>
  \<open>c.replace(/^"|"$/g, '')\<close>: the global replace scans from the left. The alternative
  \<open>^"\<close> can only match at index 0 and \<open>"$\<close> only at the last index (no \<open>m\<close> flag), and a
  code unit consumed by the first alternative is not offered to the second.
\<close>

fun dropQuoteAtEnd :: "string \<Rightarrow> string" where
  "dropQuoteAtEnd [] = []"
| "dropQuoteAtEnd [c] = (if c = CHR 0x22 then [] else [c])"
| "dropQuoteAtEnd (c # d # cs) = c # dropQuoteAtEnd (d # cs)"

fun replaceQuotes :: "string \<Rightarrow> string" where
  "replaceQuotes [] = []"
| "replaceQuotes (c # cs) =
     (if c = CHR 0x22 then dropQuoteAtEnd cs else dropQuoteAtEnd (c # cs))"

text \<open>
  A regular expression that is a word of ASCII letters with the \<open>i\<close> flag, as in
  \<open>/rank/i.test(h)\<close>: without the \<open>u\<close> flag a code unit is compared after upper-casing,
  and a code unit of 128 or more never compares equal to an ASCII letter. So a pattern
  letter matches exactly its lower-case and upper-case ASCII forms.
\<close>

definition asciiUpper :: "char \<Rightarrow> char" where
  "asciiUpper c =
     (case map_of (zip ''abcdefghijklmnopqrstuvwxyz'' ''ABCDEFGHIJKLMNOPQRSTUVWXYZ'') c of
        Some u \<Rightarrow> u
      | None \<Rightarrow> c)"

fun matchHere :: "string \<Rightarrow> string \<Rightarrow> bool" where
  "matchHere [] s = True"
| "matchHere (p # ps) [] = False"
| "matchHere (p # ps) (c # cs) = (asciiUpper c = asciiUpper p \<and> matchHere ps cs)"

fun regexTestI :: "string \<Rightarrow> string \<Rightarrow> bool" where
  "regexTestI pat [] = matchHere pat []"
| "regexTestI pat (c # cs) = (matchHere pat (c # cs) \<or> regexTestI pat cs)"

text \<open>
  \<open>xs.findIndex(p)\<close>: the index of the first element satisfying \<open>p\<close>, or \<open>-1\<close>.
\<close>

fun findIndexFrom :: "int \<Rightarrow> ('a \<Rightarrow> bool) \<Rightarrow> 'a list \<Rightarrow> int" where
  "findIndexFrom k p [] = - 1"
| "findIndexFrom k p (x # xs) = (if p x then k else findIndexFrom (k + 1) p xs)"

definition findIndex :: "('a \<Rightarrow> bool) \<Rightarrow> 'a list \<Rightarrow> int" where
  "findIndex p xs = findIndexFrom 0 p xs"

text \<open>
  \<open>cols[i]\<close>: reading an array at an index it does not have (also \<open>-1\<close>) gives
  \<open>undefined\<close>, here \<open>None\<close>; it does not throw.
\<close>

definition arrayGet :: "'a list \<Rightarrow> int \<Rightarrow> 'a option" where
  "arrayGet xs i = (if 0 \<le> i \<and> i < int (length xs) then Some (xs ! nat i) else None)"

text \<open>\<open>v || ''\<close> for \<open>v\<close> a string or \<open>undefined\<close>: both falsy values give the empty string.\<close>

definition orEmpty :: "string option \<Rightarrow> string" where
  "orEmpty v = (case v of None \<Rightarrow> [] | Some s \<Rightarrow> (if s = [] then [] else s))"

section \<open>The CSV parsing stage of getRankData\<close>

text \<open>
  The records that the parsing code computes from a body that is a string. The stage
  with the operations that can throw is \<open>parseStage\<close> below.
\<close>

record rank_row =
  Rank :: string
  Company :: string

definition cleanField :: "string \<Rightarrow> string" where
  "cleanField c = trim (replaceQuotes c)"

definition nonBlankLines :: "string \<Rightarrow> string list" where
  "nonBlankLines csv = filter (\<lambda>l. trim l \<noteq> []) (splitLines [] csv)"

definition rowOf :: "int \<Rightarrow> int \<Rightarrow> string \<Rightarrow> rank_row" where
  "rowOf rankIdx companyIdx line =
     (let cols = map cleanField (split_comma line)
      in \<lparr>Rank = orEmpty (arrayGet cols rankIdx),
          Company = orEmpty (arrayGet cols companyIdx)\<rparr>)"

definition parseCsv :: "string \<Rightarrow> rank_row list" where
  "parseCsv csv =
     (case nonBlankLines csv of
        [] \<Rightarrow> []
      | header # rest \<Rightarrow>
          (let headers = map cleanField (split_comma header);
               rankIdx = findIndex (regexTestI ''rank'') headers;
               companyIdx = findIndex (regexTestI ''company'') headers
           in map (rowOf rankIdx companyIdx) rest))"

section \<open>Values, errors and the services the program calls\<close>

text \<open>
  JSON values as they arrive in \<open>req.body\<close> and leave through \<open>res.json\<close>. A number is
  only ever tested for truthiness by this program, so integral payloads suffice.
\<close>

datatype jsval =
    JUndefined
  | JNull
  | JBool bool
  | JNum int
  | JStr string
  | JArr "jsval list"
  | JObj "(string \<times> jsval) list"

text \<open>
  A thrown \<open>Error\<close>: its \<open>message\<close>, and the value of
  \<open>err.response?.data?.error?.message\<close> where the HTTP client attached one.
\<close>

datatype js_error = JsError (message: string) (apiMessage: "string option")

text \<open>What the program does to the outside, in the order it does it.\<close>

datatype event =
    AxiosGet "nat option"
  | ThreadsCreate
  | MessagesCreate "rank_row list" jsval
  | RunsCreate string
  | RunsRetrieve
  | Sleep nat
  | MessagesList
  | ConsoleErrorMsg string string
  | ConsoleError string js_error
  | ConsoleLog "jsval list"

text \<open>
  What the outside answers on one request. A rejected promise is \<open>Inl\<close>. The field
  \<open>runs_retrieve\<close> gives the answer to the n-th status retrieval (counted from 0);
  \<open>messages_list\<close> is the value of \<open>messages.data[0].content[0].text.value\<close>, or the
  error raised while listing or reading it; \<open>clock\<close> is \<open>new Date().toISOString()\<close>.
\<close>

record world =
  axios_get :: "js_error + jsval"
  threads_create :: "js_error + unit"
  messages_create :: "js_error + unit"
  runs_create :: "js_error + unit"
  runs_retrieve :: "nat \<Rightarrow> js_error + string"
  messages_list :: "js_error + string"
  clock :: string

definition ASSISTANT_ID :: string where
  "ASSISTANT_ID = ''asst_N6FFm0AI1aNBtBAcSZKr1lLH''"

section \<open>getRankData\<close>

text \<open>
  \<open>csv.split(...)\<close> on the response data: a string has the method; on any other value
  the call throws a TypeError.
\<close>

definition csvOf :: "jsval \<Rightarrow> js_error + string" where
  "csvOf d =
     (case d of
        JStr s \<Rightarrow> Inr s
      | JUndefined \<Rightarrow> Inl (JsError ''Cannot read properties of undefined (reading 'split')'' None)
      | JNull \<Rightarrow> Inl (JsError ''Cannot read properties of null (reading 'split')'' None)
      | _ \<Rightarrow> Inl (JsError ''csv.split is not a function'' None))"

text \<open>
  \<open>lines.shift()\<close>: removes the first element and returns it; on an empty array it
  returns \<open>undefined\<close>, here \<open>None\<close>, and removes nothing.
\<close>

definition arrayShift :: "'a list \<Rightarrow> 'a option \<times> 'a list" where
  "arrayShift xs = (case xs of [] \<Rightarrow> (None, []) | x # rest \<Rightarrow> (Some x, rest))"

text \<open>\<open>v.split(',')\<close> on what \<open>shift\<close> returned: on \<open>undefined\<close> the call throws.\<close>

definition splitCommaOf :: "string option \<Rightarrow> js_error + string list" where
  "splitCommaOf v =
     (case v of
        None \<Rightarrow> Inl (JsError ''Cannot read properties of undefined (reading 'split')'' None)
      | Some s \<Rightarrow> Inr (split_comma s))"

text \<open>
  The parsing stage, statement by statement, on whatever \<open>resp.data\<close> is: the lines,
  the early return for no lines, the header taken with \<open>shift\<close>, the two indices and
  the rows. An element read at an index the array does not have is \<open>undefined\<close> and
  is only passed to \<open>||\<close>, see \<open>rowOf\<close>.
\<close>

definition parseStage :: "jsval \<Rightarrow> js_error + rank_row list" where
  "parseStage d =
     (case csvOf d of
        Inl e \<Rightarrow> Inl e
      | Inr csv \<Rightarrow>
          (let lines = filter (\<lambda>l. trim l \<noteq> []) (splitLines [] csv) in
           if length lines = 0 then Inr []
           else
             (case arrayShift lines of
                (first, rest) \<Rightarrow>
                  (case splitCommaOf first of
                     Inl e \<Rightarrow> Inl e
                   | Inr hs \<Rightarrow>
                       (let headers = map cleanField hs;
                            rankIdx = findIndex (regexTestI ''rank'') headers;
                            companyIdx = findIndex (regexTestI ''company'') headers
                        in Inr (map (rowOf rankIdx companyIdx) rest))))))"

text \<open>The body of getRankData, shared by both files but for the request timeout.\<close>

definition fetchAndParse :: "nat option \<Rightarrow> world \<Rightarrow> event list \<times> (js_error + rank_row list)" where
  "fetchAndParse timeout w =
     (case axios_get w of
        Inl e \<Rightarrow> ([AxiosGet timeout], Inl e)
      | Inr d \<Rightarrow> ([AxiosGet timeout], parseStage d))"

text \<open>
  The file with the CORS middleware: a 10 second timeout, and a \<open>catch\<close> that logs the
  message of whatever was thrown and throws a fixed error instead.
\<close>

definition getRankData :: "world \<Rightarrow> event list \<times> (js_error + rank_row list)" where
  "getRankData w =
     (case fetchAndParse (Some 10000) w of
        (tr, Inr rows) \<Rightarrow> (tr, Inr rows)
      | (tr, Inl e) \<Rightarrow>
          (tr @ [ConsoleErrorMsg ''Error fetching Google Sheets data:'' (message e)],
           Inl (JsError ''Failed to fetch rank data from Google Sheets'' None)))"

text \<open>index.js: no timeout and no \<open>try\<close>; whatever is thrown propagates.\<close>

definition getRankData_index :: "world \<Rightarrow> event list \<times> (js_error + rank_row list)" where
  "getRankData_index w = fetchAndParse None w"

section \<open>getGPTResponse\<close>

text \<open>
  Both files start alike: create a thread, add the message, start the run and retrieve
  its status once.
\<close>

definition startRun :: "world \<Rightarrow> jsval \<Rightarrow> rank_row list \<Rightarrow> event list \<times> (js_error + string)" where
  "startRun w query rankData =
     (case threads_create w of
        Inl e \<Rightarrow> ([ThreadsCreate], Inl e)
      | Inr _ \<Rightarrow>
     (case messages_create w of
        Inl e \<Rightarrow> ([ThreadsCreate, MessagesCreate rankData query], Inl e)
      | Inr _ \<Rightarrow>
     (case runs_create w of
        Inl e \<Rightarrow> ([ThreadsCreate, MessagesCreate rankData query, RunsCreate ASSISTANT_ID], Inl e)
      | Inr _ \<Rightarrow>
     (case runs_retrieve w 0 of
        Inl e \<Rightarrow>
          ([ThreadsCreate, MessagesCreate rankData query, RunsCreate ASSISTANT_ID,
            RunsRetrieve], Inl e)
      | Inr st \<Rightarrow>
          ([ThreadsCreate, MessagesCreate rankData query, RunsCreate ASSISTANT_ID,
            RunsRetrieve], Inr st)))))"

definition maxAttempts :: nat where
  "maxAttempts = 60"

definition pending :: "string \<Rightarrow> bool" where
  "pending st = (st = ''queued'' \<or> st = ''in_progress'')"

text \<open>
  The polling loop with the attempt counter. \<open>tr\<close> is what has been done so far; the
  retrieval made in iteration \<open>attempts\<close> is the one numbered \<open>attempts + 1\<close>.
\<close>

function pollLoop :: "world \<Rightarrow> event list \<Rightarrow> string \<Rightarrow> nat \<Rightarrow> event list \<times> (js_error + string)" where
  "pollLoop w tr st attempts =
     (if pending st \<and> attempts < maxAttempts then
        (case runs_retrieve w (Suc attempts) of
           Inl e \<Rightarrow> (tr @ [Sleep 1000, RunsRetrieve], Inl e)
         | Inr st' \<Rightarrow> pollLoop w (tr @ [Sleep 1000, RunsRetrieve]) st' (Suc attempts))
      else (tr, Inr st))"
  by pat_completeness auto
termination
  by (relation "measure (\<lambda>(w, tr, st, attempts). maxAttempts - attempts)") auto

declare pollLoop.simps [simp del]

text \<open>
  index.js: the same loop without an attempt counter; it may run forever, which is
  \<open>None\<close>. The argument \<open>n\<close> only numbers the retrievals for the world.
\<close>

partial_function (option) pollLoop_index ::
  "world \<Rightarrow> event list \<Rightarrow> string \<Rightarrow> nat \<Rightarrow> (event list \<times> (js_error + string)) option" where
  "pollLoop_index w tr st n =
     (if pending st then
        (case runs_retrieve w (Suc n) of
           Inl e \<Rightarrow> Some (tr @ [Sleep 1000, RunsRetrieve], Inl e)
         | Inr st' \<Rightarrow> pollLoop_index w (tr @ [Sleep 1000, RunsRetrieve]) st' (Suc n))
      else Some (tr, Inr st))"

declare pollLoop_index.simps [code]

text \<open>After the loop: read the answer of a completed run, throw on any other status.\<close>

definition finishRun :: "string \<Rightarrow> world \<Rightarrow> event list \<Rightarrow> string \<Rightarrow> event list \<times> (js_error + string)" where
  "finishRun prefix w tr st =
     (if st = ''completed'' then
        (case messages_list w of
           Inl e \<Rightarrow> (tr @ [MessagesList], Inl e)
         | Inr text \<Rightarrow> (tr @ [MessagesList], Inr text))
      else (tr, Inl (JsError (prefix @ st) None)))"

definition getGPTResponse_try :: "world \<Rightarrow> jsval \<Rightarrow> rank_row list \<Rightarrow> event list \<times> (js_error + string)" where
  "getGPTResponse_try w query rankData =
     (case startRun w query rankData of
        (tr, Inl e) \<Rightarrow> (tr, Inl e)
      | (tr, Inr st) \<Rightarrow>
          (case pollLoop w tr st 0 of
             (tr', Inl e) \<Rightarrow> (tr', Inl e)
           | (tr', Inr st') \<Rightarrow> finishRun ''Assistant run ended with status: '' w tr' st'))"

definition getGPTResponse :: "world \<Rightarrow> jsval \<Rightarrow> rank_row list \<Rightarrow> event list \<times> (js_error + string)" where
  "getGPTResponse w query rankData =
     (case getGPTResponse_try w query rankData of
        (tr, Inr answer) \<Rightarrow> (tr, Inr answer)
      | (tr, Inl e) \<Rightarrow>
          (tr @ [ConsoleErrorMsg ''Error using OpenAI Assistant:'' (message e)],
           Inl (JsError ''Failed to get response from AI assistant'' None)))"

definition getGPTResponse_index_try ::
  "world \<Rightarrow> jsval \<Rightarrow> rank_row list \<Rightarrow> (event list \<times> (js_error + string)) option" where
  "getGPTResponse_index_try w query rankData =
     (case startRun w query rankData of
        (tr, Inl e) \<Rightarrow> Some (tr, Inl e)
      | (tr, Inr st) \<Rightarrow>
          (case pollLoop_index w tr st 0 of
             None \<Rightarrow> None
           | Some (tr', Inl e) \<Rightarrow> Some (tr', Inl e)
           | Some (tr', Inr st') \<Rightarrow> Some (finishRun ''Run ended with status: '' w tr' st')))"

definition getGPTResponse_index ::
  "world \<Rightarrow> jsval \<Rightarrow> rank_row list \<Rightarrow> (event list \<times> (js_error + string)) option" where
  "getGPTResponse_index w query rankData =
     (case getGPTResponse_index_try w query rankData of
        None \<Rightarrow> None
      | Some (tr, Inr answer) \<Rightarrow> Some (tr, Inr answer)
      | Some (tr, Inl e) \<Rightarrow> Some (tr @ [ConsoleError ''Error using Assistant:'' e], Inl e))"

section \<open>The HTTP endpoint layer\<close>

record request =
  req_method :: string
  req_path :: string
  req_body :: jsval

record response =
  res_status :: nat
  res_headers :: "(string \<times> string) list"
  res_body :: jsval

text \<open>\<open>!v\<close> is \<open>\<not> truthy v\<close>.\<close>

definition truthy :: "jsval \<Rightarrow> bool" where
  "truthy v =
     (case v of
        JUndefined \<Rightarrow> False
      | JNull \<Rightarrow> False
      | JBool b \<Rightarrow> b
      | JNum n \<Rightarrow> n \<noteq> 0
      | JStr s \<Rightarrow> s \<noteq> []
      | JArr _ \<Rightarrow> True
      | JObj _ \<Rightarrow> True)"

definition typeOf :: "jsval \<Rightarrow> string" where
  "typeOf v =
     (case v of
        JUndefined \<Rightarrow> ''undefined''
      | JNull \<Rightarrow> ''object''
      | JBool _ \<Rightarrow> ''boolean''
      | JNum _ \<Rightarrow> ''number''
      | JStr _ \<Rightarrow> ''string''
      | JArr _ \<Rightarrow> ''object''
      | JObj _ \<Rightarrow> ''object'')"

text \<open>
  \<open>const { query } = req.body\<close>: destructuring \<open>undefined\<close> or \<open>null\<close> throws; an object
  gives its \<open>query\<close> property; any other value has no such property.
\<close>

definition destructureQuery :: "jsval \<Rightarrow> js_error + jsval" where
  "destructureQuery b =
     (case b of
        JUndefined \<Rightarrow>
          Inl (JsError ''Cannot destructure property 'query' of 'req.body' as it is undefined.'' None)
      | JNull \<Rightarrow>
          Inl (JsError ''Cannot destructure property 'query' of 'req.body' as it is null.'' None)
      | JObj kvs \<Rightarrow> (case map_of kvs ''query'' of None \<Rightarrow> Inr JUndefined | Some v \<Rightarrow> Inr v)
      | _ \<Rightarrow> Inr JUndefined)"

text \<open>\<open>query.trim() === ''\<close>, evaluated only where \<open>query\<close> is a string.\<close>

definition trimsToEmpty :: "jsval \<Rightarrow> bool" where
  "trimsToEmpty v = (case v of JStr s \<Rightarrow> trim s = [] | _ \<Rightarrow> False)"

definition invalidRequest :: response where
  "invalidRequest =
     \<lparr>res_status = 400, res_headers = [],
      res_body = JObj
        [(''error'', JStr ''Invalid request''),
         (''message'', JStr ''Query is required and must be a non-empty string''),
         (''example'', JObj [(''query'', JStr ''What is the top ranked company?'')])]\<rparr>"

definition dataUnavailable :: response where
  "dataUnavailable =
     \<lparr>res_status = 500, res_headers = [],
      res_body = JObj
        [(''error'', JStr ''Data unavailable''),
         (''message'',
          JStr ''Could not fetch rank data from Google Sheets. Please try again later.'')]\<rparr>"

definition answered :: "world \<Rightarrow> string \<Rightarrow> response" where
  "answered w answer =
     \<lparr>res_status = 200, res_headers = [],
      res_body = JObj
        [(''success'', JBool True), (''answer'', JStr answer), (''timestamp'', JStr (clock w))]\<rparr>"

definition processingFailed :: "world \<Rightarrow> js_error \<Rightarrow> response" where
  "processingFailed w err =
     \<lparr>res_status = 500, res_headers = [],
      res_body = JObj
        [(''success'', JBool False),
         (''error'', JStr ''Processing failed''),
         (''message'',
          JStr (if message err \<noteq> [] then message err else ''An unexpected error occurred'')),
         (''timestamp'', JStr (clock w))]\<rparr>"

text \<open>A length in a template string: its decimal digits.\<close>

definition digit :: "nat \<Rightarrow> char" where
  "digit d = ''0123456789'' ! d"

function showNat :: "nat \<Rightarrow> string" where
  "showNat n = (if n < 10 then [digit n] else showNat (n div 10) @ [digit (n mod 10)])"
  by pat_completeness auto
termination
  by (relation "measure (\<lambda>n. n)") auto

declare showNat.simps [simp del]

text \<open>The \<open>try\<close> block of the POST /query handler: a response, or what it throws.\<close>

definition postQuery_try :: "world \<Rightarrow> request \<Rightarrow> event list \<times> (js_error + response)" where
  "postQuery_try w req =
     (case destructureQuery (req_body req) of
        Inl e \<Rightarrow> ([], Inl e)
      | Inr query \<Rightarrow>
          if \<not> truthy query \<or> typeOf query \<noteq> ''string'' \<or> trimsToEmpty query
          then ([], Inr invalidRequest)
          else
            (let tr0 = [ConsoleLog [JStr ''Received query:'', query]] in
             case getRankData w of
               (tr1, Inl e) \<Rightarrow> (tr0 @ tr1, Inl e)
             | (tr1, Inr rankData) \<Rightarrow>
                 if rankData = [] then (tr0 @ tr1, Inr dataUnavailable)
                 else
                   (let tr2 = tr0 @ tr1 @
                          [ConsoleLog [JStr (''Fetched '' @ showNat (length rankData) @
                                             '' rows from Google Sheets'')]] in
                    case getGPTResponse w query rankData of
                      (tr3, Inl e) \<Rightarrow> (tr2 @ tr3, Inl e)
                    | (tr3, Inr answer) \<Rightarrow>
                        (tr2 @ tr3 @ [ConsoleLog [JStr ''Generated answer successfully'']],
                         Inr (answered w answer)))))"

definition postQuery :: "world \<Rightarrow> request \<Rightarrow> event list \<times> response" where
  "postQuery w req =
     (case postQuery_try w req of
        (tr, Inr res) \<Rightarrow> (tr, res)
      | (tr, Inl err) \<Rightarrow>
          (tr @ [ConsoleError ''Error processing query:'' err], processingFailed w err))"

text \<open>
  index.js: only a falsy \<open>query\<close> is rejected, and the polling loop may never end, in
  which case no response is sent (\<open>None\<close>).
\<close>

definition errorOnly :: "nat \<Rightarrow> string \<Rightarrow> response" where
  "errorOnly code msg =
     \<lparr>res_status = code, res_headers = [], res_body = JObj [(''error'', JStr msg)]\<rparr>"

definition postQuery_index_try ::
  "world \<Rightarrow> request \<Rightarrow> (event list \<times> (js_error + response)) option" where
  "postQuery_index_try w req =
     (case destructureQuery (req_body req) of
        Inl e \<Rightarrow> Some ([], Inl e)
      | Inr query \<Rightarrow>
          if \<not> truthy query then Some ([], Inr (errorOnly 400 ''Query is required''))
          else
            (case getRankData_index w of
               (tr1, Inl e) \<Rightarrow> Some (tr1, Inl e)
             | (tr1, Inr rankData) \<Rightarrow>
                 if rankData = []
                 then Some (tr1, Inr (errorOnly 500 ''Could not fetch rank data from Google Sheets''))
                 else
                   (case getGPTResponse_index w query rankData of
                      None \<Rightarrow> None
                    | Some (tr2, Inl e) \<Rightarrow> Some (tr1 @ tr2, Inl e)
                    | Some (tr2, Inr answer) \<Rightarrow>
                        Some (tr1 @ tr2,
                              Inr \<lparr>res_status = 200, res_headers = [],
                                   res_body = JObj [(''answer'', JStr answer)]\<rparr>))))"

definition errorMessage_index :: "js_error \<Rightarrow> string" where
  "errorMessage_index err =
     (case apiMessage err of
        Some m \<Rightarrow> (if m \<noteq> [] then m
                   else if message err \<noteq> [] then message err else ''Server error'')
      | None \<Rightarrow> (if message err \<noteq> [] then message err else ''Server error''))"

definition postQuery_index :: "world \<Rightarrow> request \<Rightarrow> (event list \<times> response) option" where
  "postQuery_index w req =
     (case postQuery_index_try w req of
        None \<Rightarrow> None
      | Some (tr, Inr res) \<Rightarrow> Some (tr, res)
      | Some (tr, Inl err) \<Rightarrow>
          Some (tr @ [ConsoleError ''Error processing query:'' err],
                errorOnly 500 (errorMessage_index err)))"

text \<open>
  The application of the file with the CORS middleware. The middleware sets three
  headers on every response and answers an OPTIONS request itself; then the first
  matching route answers, and the catch-all answers what no route matched. Requests are
  taken after \<open>express.json()\<close> has parsed the body.

  Express matches a path against a route without regard to letter case and with an
  optional slash at the end (routing is neither case sensitive nor strict by default);
  a route that itself ends in a slash matches with or without that slash. A HEAD request
  is served by the GET routes, and no body is sent in answer to it.
\<close>

definition ciEqual :: "string \<Rightarrow> string \<Rightarrow> bool" where
  "ciEqual s t = (map asciiUpper s = map asciiUpper t)"

definition routeMatches :: "string \<Rightarrow> string \<Rightarrow> bool" where
  "routeMatches pat path =
     (if pat \<noteq> [] \<and> last pat = CHR ''/''
      then ciEqual path pat \<or> ciEqual path (butlast pat)
      else ciEqual path pat \<or> ciEqual path (pat @ ''/''))"

definition servedByGet :: "string \<Rightarrow> bool" where
  "servedByGet m = (m = ''GET'' \<or> m = ''HEAD'')"

definition corsHeaders :: "(string \<times> string) list" where
  "corsHeaders =
     [(''Access-Control-Allow-Origin'', ''*''),
      (''Access-Control-Allow-Methods'', ''GET, POST, OPTIONS''),
      (''Access-Control-Allow-Headers'', ''Content-Type, Authorization'')]"

definition rootInfo :: response where
  "rootInfo =
     \<lparr>res_status = 200, res_headers = [],
      res_body = JObj
        [(''status'', JStr ''ok''),
         (''message'', JStr ''Chatbot Backend API is running''),
         (''endpoints'', JObj
            [(''health'', JStr ''GET / - Check API status''),
             (''query'', JStr
                ''POST /query - Send a query with rank data (body: { \"query\": \"your question\" })'')]),
         (''version'', JStr ''1.0.0'')]\<rparr>"

definition health :: "world \<Rightarrow> response" where
  "health w =
     \<lparr>res_status = 200, res_headers = [],
      res_body = JObj [(''status'', JStr ''healthy''), (''timestamp'', JStr (clock w))]\<rparr>"

definition notFound :: "request \<Rightarrow> response" where
  "notFound req =
     \<lparr>res_status = 404, res_headers = [],
      res_body = JObj
        [(''error'', JStr ''Not Found''),
         (''message'',
          JStr (''Route '' @ req_method req @ '' '' @ req_path req @ '' does not exist'')),
         (''availableEndpoints'', JObj
            [(''health'', JStr ''GET /''), (''query'', JStr ''POST /query'')])]\<rparr>"

definition route :: "world \<Rightarrow> request \<Rightarrow> event list \<times> response" where
  "route w req =
     (if servedByGet (req_method req) \<and> routeMatches ''/'' (req_path req)
      then ([], rootInfo)
      else if servedByGet (req_method req) \<and> routeMatches ''/health'' (req_path req)
      then ([], health w)
      else if req_method req = ''POST'' \<and> routeMatches ''/query'' (req_path req)
      then postQuery w req
      else ([], notFound req))"

definition sent :: "request \<Rightarrow> response \<Rightarrow> response" where
  "sent req res = (if req_method req = ''HEAD'' then res\<lparr>res_body := JUndefined\<rparr> else res)"

definition app :: "world \<Rightarrow> request \<Rightarrow> event list \<times> response" where
  "app w req =
     (if req_method req = ''OPTIONS''
      then ([], \<lparr>res_status = 200, res_headers = corsHeaders, res_body = JStr ''OK''\<rparr>)
      else (case route w req of
              (tr, res) \<Rightarrow> (tr, sent req (res\<lparr>res_headers := corsHeaders\<rparr>))))"

text \<open>Which events are calls to the assistant service.\<close>

definition isAssistantCall :: "event \<Rightarrow> bool" where
  "isAssistantCall ev =
     (case ev of
        ThreadsCreate \<Rightarrow> True
      | MessagesCreate _ _ \<Rightarrow> True
      | RunsCreate _ \<Rightarrow> True
      | RunsRetrieve \<Rightarrow> True
      | MessagesList \<Rightarrow> True
      | _ \<Rightarrow> False)"

section \<open>The field clean-up in the words of the specification\<close>

text \<open>
  Not taken from the source: what "at most one leading and one trailing double-quote
  character is removed" says, to be compared with \<open>replaceQuotes\<close>.
\<close>

definition stripOuterQuotes :: "string \<Rightarrow> string" where
  "stripOuterQuotes f =
     (let g = (if f \<noteq> [] \<and> hd f = CHR 0x22 then tl f else f)
      in if g \<noteq> [] \<and> last g = CHR 0x22 then butlast g else g)"

text \<open>
  Not taken from the source: \<open>stringIncludes s t\<close> says that \<open>t\<close> occurs in \<open>s\<close>, which is
  how an error message "carries" a run status.
\<close>

fun startsWith :: "string \<Rightarrow> string \<Rightarrow> bool" where
  "startsWith s [] = True"
| "startsWith [] (p # ps) = False"
| "startsWith (c # cs) (p # ps) = (c = p \<and> startsWith cs ps)"

fun stringIncludes :: "string \<Rightarrow> string \<Rightarrow> bool" where
  "stringIncludes [] t = startsWith [] t"
| "stringIncludes (c # cs) t = (startsWith (c # cs) t \<or> stringIncludes cs t)"

section \<open>Concrete inputs\<close>

text \<open>
  A world whose spreadsheet export is the given text and whose assistant run is
  completed at once.
\<close>

definition sheetWorld :: "string \<Rightarrow> world" where
  "sheetWorld csv =
     \<lparr>axios_get = Inr (JStr csv), threads_create = Inr (), messages_create = Inr (),
      runs_create = Inr (), runs_retrieve = (\<lambda>n. Inr ''completed''),
      messages_list = Inr ''Acme is ranked first'', clock = ''2024-01-01T00:00:00.000Z''\<rparr>"

text \<open>Company before Rank, CRLF after the header and a blank line between the data lines.\<close>

definition csv1 :: string where
  "csv1 = ''Company,Rank'' @ [CHR 0x0D, CHR 0x0A] @ ''Acme,1'' @ [CHR 0x0A, CHR 0x0A] @ ''Bolt,2''"

text \<open>A quoted company name with a comma inside.\<close>

definition csv2 :: string where
  "csv2 = ''Company,Rank'' @ [CHR 0x0A] @ ''\"Acme, Inc.\",1''"

text \<open>A header with neither column.\<close>

definition csv3 :: string where
  "csv3 = ''Name,Score'' @ [CHR 0x0A] @ ''Acme,1''"

text \<open>A data line shorter than the header.\<close>

definition csv4 :: string where
  "csv4 = ''Rank,Company'' @ [CHR 0x0A] @ ''7''"

text \<open>Requests: a proper question, a number as query, a blank query, a health probe.\<close>

definition askReq :: request where
  "askReq = \<lparr>req_method = ''POST'', req_path = ''/query'',
             req_body = JObj [(''query'', JStr ''Who is first?'')]\<rparr>"

definition numberReq :: request where
  "numberReq = \<lparr>req_method = ''POST'', req_path = ''/query'',
                req_body = JObj [(''query'', JNum 123)]\<rparr>"

definition blankReq :: request where
  "blankReq = \<lparr>req_method = ''POST'', req_path = ''/query'',
               req_body = JObj [(''query'', JStr ''   '')]\<rparr>"

definition healthReq :: request where
  "healthReq = \<lparr>req_method = ''GET'', req_path = ''/health'', req_body = JObj []\<rparr>"

text \<open>
  Worlds: the spreadsheet request fails; the run stays in progress for ever; the run has
  expired. \<open>rows1\<close> are the records of \<open>csv1\<close>.
\<close>

definition downWorld :: world where
  "downWorld = (sheetWorld csv1)\<lparr>axios_get := Inl (JsError ''timeout of 10000ms exceeded'' None)\<rparr>"

definition stuckWorld :: world where
  "stuckWorld = (sheetWorld csv1)\<lparr>runs_retrieve := (\<lambda>n. Inr ''in_progress'')\<rparr>"

definition expiredWorld :: world where
  "expiredWorld = (sheetWorld csv1)\<lparr>runs_retrieve := (\<lambda>n. Inr ''expired'')\<rparr>"

text \<open>
  The spreadsheet service answers with JSON, which the HTTP client hands over parsed;
  a run that is queued, then in progress, then failed; a health probe in capitals with a
  slash at the end.
\<close>

definition jsonWorld :: world where
  "jsonWorld = (sheetWorld csv1)\<lparr>axios_get := Inr (JObj [(''status'', JStr ''error'')])\<rparr>"

definition failingWorld :: world where
  "failingWorld = (sheetWorld csv1)\<lparr>runs_retrieve :=
     (\<lambda>n. Inr (if n = 0 then ''queued'' else if n = 1 then ''in_progress'' else ''failed''))\<rparr>"

definition healthReq2 :: request where
  "healthReq2 = \<lparr>req_method = ''GET'', req_path = ''/HEALTH/'', req_body = JObj []\<rparr>"

definition rows1 :: "rank_row list" where
  "rows1 = [\<lparr>Rank = ''1'', Company = ''Acme''\<rparr>, \<lparr>Rank = ''2'', Company = ''Bolt''\<rparr>]"


section \<open>Facts about the array and string primitives\<close>

lemma findIndexFrom_none:
  "\<forall>x\<in>set xs. \<not> p x \<Longrightarrow> findIndexFrom k p xs = - 1"
  by (induction xs arbitrary: k) auto

lemma findIndexFrom_first:
  "i < length xs \<Longrightarrow> p (xs ! i) \<Longrightarrow> \<forall>j<i. \<not> p (xs ! j) \<Longrightarrow> findIndexFrom k p xs = k + int i"
proof (induction xs arbitrary: k i)
  case Nil
  then show ?case by simp
next
  case (Cons x xs)
  show ?case
  proof (cases i)
    case 0
    with Cons.prems show ?thesis by simp
  next
    case (Suc i')
    from Cons.prems Suc have nx: "\<not> p x" by auto
    from Cons.prems Suc have "i' < length xs" "p (xs ! i')" "\<forall>j<i'. \<not> p (xs ! j)" by auto
    from Cons.IH[OF this] have "findIndexFrom (k + 1) p xs = k + 1 + int i'" .
    with nx Suc show ?thesis by simp
  qed
qed

lemma findIndex_first:
  "i < length xs \<Longrightarrow> p (xs ! i) \<Longrightarrow> \<forall>j<i. \<not> p (xs ! j) \<Longrightarrow> findIndex p xs = int i"
  using findIndexFrom_first[of i xs p 0] by (simp add: findIndex_def)

lemma findIndex_none: "\<forall>x\<in>set xs. \<not> p x \<Longrightarrow> findIndex p xs = - 1"
  by (simp add: findIndex_def findIndexFrom_none)

lemma orEmpty_arrayGet_nat:
  "orEmpty (arrayGet cols (int i)) = (if i < length cols then cols ! i else [])"
  by (simp add: orEmpty_def arrayGet_def)

lemma orEmpty_arrayGet_neg: "i < 0 \<Longrightarrow> orEmpty (arrayGet cols i) = []"
  by (simp add: orEmpty_def arrayGet_def)

lemma orEmpty_arrayGet_beyond: "int (length cols) \<le> i \<Longrightarrow> orEmpty (arrayGet cols i) = []"
  by (simp add: orEmpty_def arrayGet_def)

lemma dropQuoteAtEnd_eq:
  "dropQuoteAtEnd s = (if s \<noteq> [] \<and> last s = CHR 0x22 then butlast s else s)"
  by (induction s rule: dropQuoteAtEnd.induct) auto

lemma replaceQuotes_eq: "replaceQuotes f = stripOuterQuotes f"
  by (cases f) (simp_all add: stripOuterQuotes_def dropQuoteAtEnd_eq)

lemma cleanField_eq: "cleanField = (\<lambda>f. trim (stripOuterQuotes f))"
  by (rule ext) (simp add: cleanField_def replaceQuotes_eq)

lemma trim_decomp:
  "\<exists>a b. s = a @ trim s @ b \<and> (\<forall>c\<in>set a \<union> set b. isWhiteSpace c)"
proof -
  let ?t = "dropWhile isWhiteSpace s"
  let ?a = "takeWhile isWhiteSpace s"
  let ?b = "rev (takeWhile isWhiteSpace (rev ?t))"
  have "rev (takeWhile isWhiteSpace (rev ?t) @ dropWhile isWhiteSpace (rev ?t)) = ?t"
    by (simp only: takeWhile_dropWhile_id rev_rev_ident)
  then have "rev (dropWhile isWhiteSpace (rev ?t)) @ ?b = ?t"
    by (simp only: rev_append)
  then have t: "?t = trim s @ ?b"
    by (simp add: trim_def)
  have "s = ?a @ ?t" by simp
  with t have s: "s = ?a @ trim s @ ?b" by simp
  have a: "\<forall>c\<in>set ?a. isWhiteSpace c"
    by (auto dest: set_takeWhileD)
  have b: "\<forall>c\<in>set ?b. isWhiteSpace c"
    by (auto dest: set_takeWhileD)
  from s a b show ?thesis by blast
qed

lemma trim_ends:
  assumes "trim s \<noteq> []"
  shows "\<not> isWhiteSpace (hd (trim s)) \<and> \<not> isWhiteSpace (last (trim s))"
proof -
  let ?t = "dropWhile isWhiteSpace s"
  let ?u = "dropWhile isWhiteSpace (rev ?t)"
  from assms have u: "?u \<noteq> []" by (simp add: trim_def)
  have t: "?t \<noteq> []"
  proof
    assume e: "?t = []"
    have "?u = []" unfolding e by simp
    with u show False by contradiction
  qed
  have "last (trim s) = hd ?u" using u by (simp add: trim_def last_rev)
  moreover have "\<not> isWhiteSpace (hd ?u)" using u by (rule hd_dropWhile)
  moreover have "hd (trim s) = last ?u" using u by (simp add: trim_def hd_rev)
  moreover have "last ?u = last (rev ?t)"
    using u by (metis append_Nil2 last_appendR takeWhile_dropWhile_id)
  moreover have "last (rev ?t) = hd ?t" using t by (simp add: last_rev)
  moreover have "\<not> isWhiteSpace (hd ?t)" using t by (rule hd_dropWhile)
  ultimately show ?thesis by simp
qed


section \<open>Facts about the parsing stage\<close>

lemma Rank_rowOf:
  "Rank (rowOf r c line) = orEmpty (arrayGet (map cleanField (split_comma line)) r)"
  by (simp add: rowOf_def Let_def)

lemma Company_rowOf:
  "Company (rowOf r c line) = orEmpty (arrayGet (map cleanField (split_comma line)) c)"
  by (simp add: rowOf_def Let_def)

lemma parseCsv_header:
  "nonBlankLines csv = header # rest \<Longrightarrow>
   parseCsv csv =
     map (rowOf (findIndex (regexTestI ''rank'') (map cleanField (split_comma header)))
                (findIndex (regexTestI ''company'') (map cleanField (split_comma header)))) rest"
  by (simp add: parseCsv_def Let_def)

lemma parseCsv_no_lines: "nonBlankLines csv = [] \<Longrightarrow> parseCsv csv = []"
  by (simp add: parseCsv_def)

text \<open>
  On a string the stage does not throw: the only call on a possibly undefined value is
  the \<open>split\<close> of the header, and the early return keeps \<open>shift\<close> from an empty array.
\<close>

lemma parseStage_string: "parseStage (JStr csv) = Inr (parseCsv csv)"
proof (cases "nonBlankLines csv")
  case Nil
  then show ?thesis
    by (simp add: parseStage_def csvOf_def parseCsv_def nonBlankLines_def)
next
  case (Cons header rest)
  then have l: "filter (\<lambda>l. trim l \<noteq> []) (splitLines [] csv) = header # rest"
    by (simp add: nonBlankLines_def)
  show ?thesis
    by (simp add: parseStage_def csvOf_def l arrayShift_def splitCommaOf_def Let_def
        parseCsv_header[OF Cons])
qed

text \<open>Without the early return the header's \<open>split\<close> would throw on a body with no lines.\<close>

lemma shift_of_no_lines_throws: "\<exists>e. splitCommaOf (fst (arrayShift [])) = Inl e"
  by (simp add: arrayShift_def splitCommaOf_def)

lemma parseStage_returns_iff: "(\<exists>rows. parseStage d = Inr rows) \<longleftrightarrow> (\<exists>csv. d = JStr csv)"
  by (cases d) (simp_all add: parseStage_string, simp_all add: parseStage_def csvOf_def)

lemma getRankData_string:
  "axios_get w = Inr (JStr csv) \<Longrightarrow> getRankData w = ([AxiosGet (Some 10000)], Inr (parseCsv csv))"
  by (simp add: getRankData_def fetchAndParse_def parseStage_string)

lemma getRankData_index_string:
  "axios_get w = Inr (JStr csv) \<Longrightarrow> getRankData_index w = ([AxiosGet None], Inr (parseCsv csv))"
  by (simp add: getRankData_index_def fetchAndParse_def parseStage_string)

lemma sheetWorld_body: "axios_get (sheetWorld csv) = Inr (JStr csv)"
  by (simp add: sheetWorld_def)

section \<open>Column order\<close>

text \<open>
  Claim C1. Let the first non-blank line of the body be a header whose first
  rank-matching column is at position \<open>r\<close> and whose first company-matching column is at
  position \<open>c\<close>, in whatever order. Then getRankData (in both files) returns one record for
  each later non-blank line, in the order of the lines, and the record of line \<open>k\<close> has as
  Rank the cleaned field at position \<open>r\<close> of that line and as Company the cleaned field at
  position \<open>c\<close> (the empty string where the line has no such field).
\<close>

theorem header_columns_any_order:
  assumes body: "axios_get w = Inr (JStr csv)"
    and lines: "nonBlankLines csv = header # rest"
    and rank: "r < length (map cleanField (split_comma header))"
      "regexTestI ''rank'' (map cleanField (split_comma header) ! r)"
      "\<forall>j<r. \<not> regexTestI ''rank'' (map cleanField (split_comma header) ! j)"
    and company: "c < length (map cleanField (split_comma header))"
      "regexTestI ''company'' (map cleanField (split_comma header) ! c)"
      "\<forall>j<c. \<not> regexTestI ''company'' (map cleanField (split_comma header) ! j)"
  shows "snd (getRankData w) = Inr (parseCsv csv)
    \<and> snd (getRankData_index w) = Inr (parseCsv csv)
    \<and> length (parseCsv csv) = length rest
    \<and> (\<forall>k<length rest.
         Rank (parseCsv csv ! k) =
           (if r < length (split_comma (rest ! k)) then cleanField (split_comma (rest ! k) ! r) else [])
       \<and> Company (parseCsv csv ! k) =
           (if c < length (split_comma (rest ! k)) then cleanField (split_comma (rest ! k) ! c) else []))"
proof -
  have ri: "findIndex (regexTestI ''rank'') (map cleanField (split_comma header)) = int r"
    using rank by (rule findIndex_first)
  have ci: "findIndex (regexTestI ''company'') (map cleanField (split_comma header)) = int c"
    using company by (rule findIndex_first)
  have p: "parseCsv csv = map (rowOf (int r) (int c)) rest"
    using parseCsv_header[OF lines] ri ci by simp
  have rows: "\<forall>k<length rest.
         Rank (parseCsv csv ! k) =
           (if r < length (split_comma (rest ! k)) then cleanField (split_comma (rest ! k) ! r) else [])
       \<and> Company (parseCsv csv ! k) =
           (if c < length (split_comma (rest ! k)) then cleanField (split_comma (rest ! k) ! c) else [])"
    by (simp add: p Rank_rowOf Company_rowOf orEmpty_arrayGet_nat)
  show ?thesis
    using rows by (simp add: getRankData_string[OF body] getRankData_index_string[OF body] p)
qed

theorem header_columns_any_order_witness:
  "snd (getRankData (sheetWorld csv1)) = Inr (parseCsv csv1)
   \<and> length (parseCsv csv1) = 2
   \<and> Rank (parseCsv csv1 ! 0) = ''1'' \<and> Company (parseCsv csv1 ! 0) = ''Acme''
   \<and> Rank (parseCsv csv1 ! 1) = ''2'' \<and> Company (parseCsv csv1 ! 1) = ''Bolt''"
proof -
  have lines: "nonBlankLines csv1 = ''Company,Rank'' # [''Acme,1'', ''Bolt,2'']"
    by (simp add: csv1_def nonBlankLines_def trim_def isWhiteSpace_def)
  have hs: "map cleanField (split_comma ''Company,Rank'') = [''Company'', ''Rank'']"
    by (simp add: split_comma_def cleanField_def trim_def isWhiteSpace_def)
  have r: "1 < length (map cleanField (split_comma ''Company,Rank''))"
      "regexTestI ''rank'' (map cleanField (split_comma ''Company,Rank'') ! 1)"
      "\<forall>j<1. \<not> regexTestI ''rank'' (map cleanField (split_comma ''Company,Rank'') ! j)"
    unfolding hs by (simp_all add: asciiUpper_def)
  have c: "0 < length (map cleanField (split_comma ''Company,Rank''))"
      "regexTestI ''company'' (map cleanField (split_comma ''Company,Rank'') ! 0)"
      "\<forall>j<0. \<not> regexTestI ''company'' (map cleanField (split_comma ''Company,Rank'') ! j)"
    unfolding hs by (simp_all add: asciiUpper_def)
  have cols: "split_comma ''Acme,1'' = [''Acme'', ''1'']" "split_comma ''Bolt,2'' = [''Bolt'', ''2'']"
    by (simp_all add: split_comma_def)
  have cl: "cleanField ''Acme'' = ''Acme''" "cleanField ''1'' = ''1''"
      "cleanField ''Bolt'' = ''Bolt''" "cleanField ''2'' = ''2''"
    by (simp_all add: cleanField_def trim_def isWhiteSpace_def)
  note th = header_columns_any_order[OF sheetWorld_body lines r c]
  from th have res: "snd (getRankData (sheetWorld csv1)) = Inr (parseCsv csv1)"
    and len: "length (parseCsv csv1) = length [''Acme,1'', ''Bolt,2'']"
    by blast+
  from th have rows: "\<And>k. k < length [''Acme,1'', ''Bolt,2''] \<Longrightarrow>
       Rank (parseCsv csv1 ! k) =
           (if 1 < length (split_comma ([''Acme,1'', ''Bolt,2''] ! k))
            then cleanField (split_comma ([''Acme,1'', ''Bolt,2''] ! k) ! 1) else [])
       \<and> Company (parseCsv csv1 ! k) =
           (if 0 < length (split_comma ([''Acme,1'', ''Bolt,2''] ! k))
            then cleanField (split_comma ([''Acme,1'', ''Bolt,2''] ! k) ! 0) else [])"
    by blast
  have r0: "Rank (parseCsv csv1 ! 0) = ''1'' \<and> Company (parseCsv csv1 ! 0) = ''Acme''"
    using rows[of 0] by (simp add: cols cl)
  have r1: "Rank (parseCsv csv1 ! 1) = ''2'' \<and> Company (parseCsv csv1 ! 1) = ''Bolt''"
    using rows[of 1] by (simp add: cols cl)
  from res len r0 r1 show ?thesis by simp
qed

section \<open>Missing columns\<close>

text \<open>
  Claim C7. Where no header field matches "rank" (case-insensitive substring), getRankData
  still returns one record per data line, and every record has the empty string as Rank;
  likewise for "company" and the Company field.
\<close>

theorem missing_column_gives_empty_field:
  assumes body: "axios_get w = Inr (JStr csv)"
    and lines: "nonBlankLines csv = header # rest"
  shows "snd (getRankData w) = Inr (parseCsv csv)
    \<and> snd (getRankData_index w) = Inr (parseCsv csv)
    \<and> length (parseCsv csv) = length rest
    \<and> ((\<forall>h\<in>set (map cleanField (split_comma header)). \<not> regexTestI ''rank'' h)
         \<longrightarrow> (\<forall>row\<in>set (parseCsv csv). Rank row = []))
    \<and> ((\<forall>h\<in>set (map cleanField (split_comma header)). \<not> regexTestI ''company'' h)
         \<longrightarrow> (\<forall>row\<in>set (parseCsv csv). Company row = []))"
proof -
  have r: "\<forall>row\<in>set (parseCsv csv). Rank row = []"
    if "\<forall>h\<in>set (map cleanField (split_comma header)). \<not> regexTestI ''rank'' h"
    using findIndex_none[OF that]
    by (auto simp: parseCsv_header[OF lines] Rank_rowOf orEmpty_arrayGet_neg)
  have c: "\<forall>row\<in>set (parseCsv csv). Company row = []"
    if "\<forall>h\<in>set (map cleanField (split_comma header)). \<not> regexTestI ''company'' h"
    using findIndex_none[OF that]
    by (auto simp: parseCsv_header[OF lines] Company_rowOf orEmpty_arrayGet_neg)
  have len: "length (parseCsv csv) = length rest"
    by (simp add: parseCsv_header[OF lines])
  show ?thesis
    using r c len getRankData_string[OF body] getRankData_index_string[OF body]
    by (intro conjI impI) simp_all
qed

theorem missing_column_gives_empty_field_witness:
  "snd (getRankData (sheetWorld csv3)) = Inr (parseCsv csv3)
   \<and> length (parseCsv csv3) = 1
   \<and> Rank (parseCsv csv3 ! 0) = [] \<and> Company (parseCsv csv3 ! 0) = []"
proof -
  have lines: "nonBlankLines csv3 = ''Name,Score'' # [''Acme,1'']"
    by (simp add: csv3_def nonBlankLines_def trim_def isWhiteSpace_def)
  have hs: "map cleanField (split_comma ''Name,Score'') = [''Name'', ''Score'']"
    by (simp add: split_comma_def cleanField_def trim_def isWhiteSpace_def)
  have nr: "\<forall>h\<in>set (map cleanField (split_comma ''Name,Score'')). \<not> regexTestI ''rank'' h"
    unfolding hs by (simp add: asciiUpper_def)
  have nc: "\<forall>h\<in>set (map cleanField (split_comma ''Name,Score'')). \<not> regexTestI ''company'' h"
    unfolding hs by (simp add: asciiUpper_def)
  note th = missing_column_gives_empty_field[OF sheetWorld_body lines]
  have r: "\<forall>row\<in>set (parseCsv csv3). Rank row = []"
    using th[THEN conjunct2, THEN conjunct2, THEN conjunct2, THEN conjunct1] nr by (rule mp)
  have c: "\<forall>row\<in>set (parseCsv csv3). Company row = []"
    using th[THEN conjunct2, THEN conjunct2, THEN conjunct2, THEN conjunct2] nc by (rule mp)
  have res: "snd (getRankData (sheetWorld csv3)) = Inr (parseCsv csv3)"
    using th by (rule conjunct1)
  have len: "length (parseCsv csv3) = length [''Acme,1'']"
    using th[THEN conjunct2, THEN conjunct2] by (rule conjunct1)
  then have "parseCsv csv3 ! 0 \<in> set (parseCsv csv3)"
    by (intro nth_mem) simp
  with r c have "Rank (parseCsv csv3 ! 0) = [] \<and> Company (parseCsv csv3 ! 0) = []"
    by blast
  with res len show ?thesis by simp
qed

section \<open>Quotes and white space\<close>

text \<open>
  Claim C9. Every field of the header line and of every data line is used only after
  removing at most one leading and one trailing double-quote character and then trimming
  white space: the records are what one gets with \<open>trim (stripOuterQuotes f)\<close> in place of
  every field \<open>f\<close>, the trimmed value neither starts nor ends with white space, and it
  differs from the unquoted field by white space only. A field written as "Acme, Inc." is
  still split at its comma and loses its outer quotes.
\<close>

theorem fields_unquoted_and_trimmed:
  assumes body: "axios_get w = Inr (JStr csv)"
    and lines: "nonBlankLines csv = header # rest"
    and k: "k < length rest"
  shows "snd (getRankData w) = Inr (parseCsv csv)
    \<and> snd (getRankData_index w) = Inr (parseCsv csv)
    \<and> Rank (parseCsv csv ! k) =
        orEmpty (arrayGet (map (\<lambda>f. trim (stripOuterQuotes f)) (split_comma (rest ! k)))
          (findIndex (regexTestI ''rank'')
             (map (\<lambda>f. trim (stripOuterQuotes f)) (split_comma header))))
    \<and> Company (parseCsv csv ! k) =
        orEmpty (arrayGet (map (\<lambda>f. trim (stripOuterQuotes f)) (split_comma (rest ! k)))
          (findIndex (regexTestI ''company'')
             (map (\<lambda>f. trim (stripOuterQuotes f)) (split_comma header))))
    \<and> (\<forall>f. (trim (stripOuterQuotes f) \<noteq> [] \<longrightarrow>
               \<not> isWhiteSpace (hd (trim (stripOuterQuotes f)))
               \<and> \<not> isWhiteSpace (last (trim (stripOuterQuotes f))))
           \<and> (\<exists>a b. stripOuterQuotes f = a @ trim (stripOuterQuotes f) @ b
                  \<and> (\<forall>c\<in>set a \<union> set b. isWhiteSpace c)))"
proof -
  have rows: "Rank (parseCsv csv ! k) =
        orEmpty (arrayGet (map cleanField (split_comma (rest ! k)))
          (findIndex (regexTestI ''rank'') (map cleanField (split_comma header))))"
     "Company (parseCsv csv ! k) =
        orEmpty (arrayGet (map cleanField (split_comma (rest ! k)))
          (findIndex (regexTestI ''company'') (map cleanField (split_comma header))))"
    using k by (simp_all add: parseCsv_header[OF lines] Rank_rowOf Company_rowOf)
  have tr: "\<forall>f. (trim (stripOuterQuotes f) \<noteq> [] \<longrightarrow>
               \<not> isWhiteSpace (hd (trim (stripOuterQuotes f)))
               \<and> \<not> isWhiteSpace (last (trim (stripOuterQuotes f))))
           \<and> (\<exists>a b. stripOuterQuotes f = a @ trim (stripOuterQuotes f) @ b
                  \<and> (\<forall>c\<in>set a \<union> set b. isWhiteSpace c))"
    using trim_ends trim_decomp by blast
  from rows have rows': "Rank (parseCsv csv ! k) =
        orEmpty (arrayGet (map (\<lambda>f. trim (stripOuterQuotes f)) (split_comma (rest ! k)))
          (findIndex (regexTestI ''rank'')
             (map (\<lambda>f. trim (stripOuterQuotes f)) (split_comma header))))"
    "Company (parseCsv csv ! k) =
        orEmpty (arrayGet (map (\<lambda>f. trim (stripOuterQuotes f)) (split_comma (rest ! k)))
          (findIndex (regexTestI ''company'')
             (map (\<lambda>f. trim (stripOuterQuotes f)) (split_comma header))))"
    unfolding cleanField_eq by blast+
  show ?thesis
    using rows' tr getRankData_string[OF body] getRankData_index_string[OF body]
    by (intro conjI) simp_all
qed

theorem fields_unquoted_and_trimmed_witness:
  "Company (parseCsv csv2 ! 0) = ''Acme'' \<and> Rank (parseCsv csv2 ! 0) = ''Inc.''"
proof -
  have lines: "nonBlankLines csv2 = ''Company,Rank'' # [''\"Acme, Inc.\",1'']"
    by (simp add: csv2_def nonBlankLines_def trim_def isWhiteSpace_def)
  have k: "0 < length [''\"Acme, Inc.\",1'']" by simp
  have hs: "map (\<lambda>f. trim (stripOuterQuotes f)) (split_comma ''Company,Rank'') = [''Company'', ''Rank'']"
    by (simp add: split_comma_def stripOuterQuotes_def trim_def isWhiteSpace_def)
  have cols: "map (\<lambda>f. trim (stripOuterQuotes f)) (split_comma ([''\"Acme, Inc.\",1''] ! 0))
      = [''Acme'', ''Inc.'', ''1'']"
    by (simp add: split_comma_def stripOuterQuotes_def trim_def isWhiteSpace_def)
  have ri: "findIndex (regexTestI ''rank'') [''Company'', ''Rank''] = 1"
    by (simp add: findIndex_def asciiUpper_def)
  have ci: "findIndex (regexTestI ''company'') [''Company'', ''Rank''] = 0"
    by (simp add: findIndex_def asciiUpper_def)
  note th = fields_unquoted_and_trimmed[OF sheetWorld_body lines k]
  have "Rank (parseCsv csv2 ! 0) = orEmpty (arrayGet [''Acme'', ''Inc.'', ''1''] 1)"
    using th[THEN conjunct2, THEN conjunct2, THEN conjunct1] unfolding hs cols ri .
  moreover have "Company (parseCsv csv2 ! 0) = orEmpty (arrayGet [''Acme'', ''Inc.'', ''1''] 0)"
    using th[THEN conjunct2, THEN conjunct2, THEN conjunct2, THEN conjunct1] unfolding hs cols ci .
  ultimately show ?thesis by (simp add: orEmpty_def arrayGet_def)
qed

section \<open>Totality of the parsing stage\<close>

text \<open>
  Claim C10. For every string body the parsing stage, with its operations that can
  throw, returns a list of records, and so does getRankData in both files. In the record
  of a data line a field is the cleaned entry at the index of the matched header column
  where the line has an entry there, and the empty string where the line has fewer
  entries; nothing is thrown for the missing entry.
\<close>

theorem parsing_is_total:
  assumes body: "axios_get w = Inr (JStr csv)"
  shows "parseStage (JStr csv) = Inr (parseCsv csv)
    \<and> snd (getRankData w) = Inr (parseCsv csv)
    \<and> snd (getRankData_index w) = Inr (parseCsv csv)
    \<and> (\<forall>header rest k. nonBlankLines csv = header # rest \<and> k < length rest \<longrightarrow>
         (int (length (split_comma (rest ! k)))
            \<le> findIndex (regexTestI ''rank'') (map cleanField (split_comma header))
          \<longrightarrow> Rank (parseCsv csv ! k) = [])
       \<and> (int (length (split_comma (rest ! k)))
            \<le> findIndex (regexTestI ''company'') (map cleanField (split_comma header))
          \<longrightarrow> Company (parseCsv csv ! k) = [])
       \<and> (\<forall>i < length (split_comma (rest ! k)).
            (findIndex (regexTestI ''rank'') (map cleanField (split_comma header)) = int i
             \<longrightarrow> Rank (parseCsv csv ! k) = cleanField (split_comma (rest ! k) ! i))
          \<and> (findIndex (regexTestI ''company'') (map cleanField (split_comma header)) = int i
             \<longrightarrow> Company (parseCsv csv ! k) = cleanField (split_comma (rest ! k) ! i))))"
proof -
  have short: "(int (length (split_comma (rest ! k)))
            \<le> findIndex (regexTestI ''rank'') (map cleanField (split_comma header))
          \<longrightarrow> Rank (parseCsv csv ! k) = [])
       \<and> (int (length (split_comma (rest ! k)))
            \<le> findIndex (regexTestI ''company'') (map cleanField (split_comma header))
          \<longrightarrow> Company (parseCsv csv ! k) = [])"
    if "nonBlankLines csv = header # rest" "k < length rest" for header rest k
    using that(2)
    by (simp add: parseCsv_header[OF that(1)] Rank_rowOf Company_rowOf orEmpty_arrayGet_beyond)
  have inside: "(findIndex (regexTestI ''rank'') (map cleanField (split_comma header)) = int i
             \<longrightarrow> Rank (parseCsv csv ! k) = cleanField (split_comma (rest ! k) ! i))
          \<and> (findIndex (regexTestI ''company'') (map cleanField (split_comma header)) = int i
             \<longrightarrow> Company (parseCsv csv ! k) = cleanField (split_comma (rest ! k) ! i))"
    if "nonBlankLines csv = header # rest" "k < length rest" "i < length (split_comma (rest ! k))"
    for header rest k i
    using that(2,3)
    by (simp add: parseCsv_header[OF that(1)] Rank_rowOf Company_rowOf orEmpty_arrayGet_nat)
  show ?thesis
    using short inside getRankData_string[OF body] getRankData_index_string[OF body]
    by (intro conjI allI impI) (simp_all add: parseStage_string)
qed

theorem parsing_is_total_witness:
  "parseStage (JStr csv4) = Inr (parseCsv csv4)
   \<and> snd (getRankData (sheetWorld csv4)) = Inr (parseCsv csv4)
   \<and> Company (parseCsv csv4 ! 0) = []
   \<and> Rank (parseCsv csv4 ! 0) = ''7''"
proof -
  have lines: "nonBlankLines csv4 = ''Rank,Company'' # [''7'']"
    by (simp add: csv4_def nonBlankLines_def trim_def isWhiteSpace_def)
  have hs: "map cleanField (split_comma ''Rank,Company'') = [''Rank'', ''Company'']"
    by (simp add: split_comma_def cleanField_def trim_def isWhiteSpace_def)
  have ci: "findIndex (regexTestI ''company'') (map cleanField (split_comma ''Rank,Company'')) = 1"
    unfolding hs by (simp add: findIndex_def asciiUpper_def)
  have ri: "findIndex (regexTestI ''rank'') (map cleanField (split_comma ''Rank,Company'')) = int 0"
    unfolding hs by (simp add: findIndex_def asciiUpper_def)
  have fields: "split_comma ([''7''] ! 0) = [''7'']"
    by (simp add: split_comma_def)
  have short: "int (length (split_comma ([''7''] ! 0)))
      \<le> findIndex (regexTestI ''company'') (map cleanField (split_comma ''Rank,Company''))"
    unfolding ci fields by simp
  have i: "0 < length (split_comma ([''7''] ! 0))"
    unfolding fields by simp
  have cl: "cleanField (split_comma ([''7''] ! 0) ! 0) = ''7''"
    unfolding fields by (simp add: cleanField_def trim_def isWhiteSpace_def)
  note th = parsing_is_total[OF sheetWorld_body, of csv4]
  have k: "0 < length [''7'']" by simp
  note row = th[THEN conjunct2, THEN conjunct2, THEN conjunct2, rule_format,
      of "''Rank,Company''" "[''7'']" 0, OF conjI, OF lines k]
  have "parseStage (JStr csv4) = Inr (parseCsv csv4)"
    using th by (rule conjunct1)
  moreover have "snd (getRankData (sheetWorld csv4)) = Inr (parseCsv csv4)"
    using th[THEN conjunct2] by (rule conjunct1)
  moreover have "Company (parseCsv csv4 ! 0) = []"
    using row[THEN conjunct2, THEN conjunct1, rule_format] short by simp
  moreover have "Rank (parseCsv csv4 ! 0) = ''7''"
    using row[THEN conjunct2, THEN conjunct2, rule_format, OF i, THEN conjunct1, rule_format, OF ri] cl
    by simp
  ultimately show ?thesis by (intro conjI)
qed

section \<open>Facts about the handlers\<close>

lemma parseCsv_csv1: "parseCsv csv1 = rows1"
  by (simp add: csv1_def rows1_def parseCsv_def nonBlankLines_def trim_def isWhiteSpace_def
      split_comma_def cleanField_def rowOf_def findIndex_def asciiUpper_def arrayGet_def orEmpty_def)

lemma trim_Nil: "trim [] = []"
  by (simp add: trim_def)

lemma valid_query_passes:
  assumes "destructureQuery (req_body req) = Inr (JStr q)" and "trim q \<noteq> []"
  shows "postQuery_try w req =
    (case getRankData w of
       (tr1, Inl e) \<Rightarrow> ([ConsoleLog [JStr ''Received query:'', JStr q]] @ tr1, Inl e)
     | (tr1, Inr rankData) \<Rightarrow>
         if rankData = [] then ([ConsoleLog [JStr ''Received query:'', JStr q]] @ tr1, Inr dataUnavailable)
         else
           (case getGPTResponse w (JStr q) rankData of
              (tr3, Inl e) \<Rightarrow>
                ([ConsoleLog [JStr ''Received query:'', JStr q]] @ tr1 @
                 [ConsoleLog [JStr (''Fetched '' @ showNat (length rankData) @
                                    '' rows from Google Sheets'')]] @ tr3, Inl e)
            | (tr3, Inr answer) \<Rightarrow>
                ([ConsoleLog [JStr ''Received query:'', JStr q]] @ tr1 @
                 [ConsoleLog [JStr (''Fetched '' @ showNat (length rankData) @
                                    '' rows from Google Sheets'')]] @ tr3 @
                 [ConsoleLog [JStr ''Generated answer successfully'']],
                 Inr (answered w answer))))"
proof -
  from assms(2) have "q \<noteq> []" using trim_Nil by blast
  with assms show ?thesis
    by (simp add: postQuery_try_def truthy_def typeOf_def trimsToEmpty_def Let_def
        split: prod.splits sum.splits)
qed

lemma postQuery_rejects_invalid_query:
  assumes "destructureQuery (req_body req) = Inr v"
    and "v = JUndefined \<or> typeOf v \<noteq> ''string'' \<or> (\<exists>s. v = JStr s \<and> trim s = [])"
  shows "postQuery w req = ([], invalidRequest)"
  using assms
  by (auto simp: postQuery_def postQuery_try_def truthy_def trimsToEmpty_def)

lemma nonBlankLines_Nil: "nonBlankLines [] = []"
  by (simp add: nonBlankLines_def trim_def)

lemma getRankData_throws:
  "axios_get w = Inl e \<Longrightarrow>
   getRankData w =
     ([AxiosGet (Some 10000), ConsoleErrorMsg ''Error fetching Google Sheets data:'' (message e)],
      Inl (JsError ''Failed to fetch rank data from Google Sheets'' None))"
  by (simp add: getRankData_def fetchAndParse_def)

lemma getRankData_index_throws:
  "axios_get w = Inl e \<Longrightarrow> getRankData_index w = ([AxiosGet None], Inl e)"
  by (simp add: getRankData_index_def fetchAndParse_def)

text \<open>
  Whatever makes getRankData throw (the request, or a body that is not a string), it
  throws the same fixed error after one request and one line in the error log, and it
  throws exactly when index.js's getRankData throws.
\<close>

lemma getRankData_thrown:
  assumes "snd (getRankData w) = Inl e"
  shows "e = JsError ''Failed to fetch rank data from Google Sheets'' None
    \<and> (\<exists>m. fst (getRankData w) =
          [AxiosGet (Some 10000), ConsoleErrorMsg ''Error fetching Google Sheets data:'' m])"
  using assms
  by (auto simp: getRankData_def fetchAndParse_def split: sum.splits)

lemma getRankData_index_thrown:
  assumes "snd (getRankData_index w) = Inl e"
  shows "fst (getRankData_index w) = [AxiosGet None]"
  using assms
  by (auto simp: getRankData_index_def fetchAndParse_def split: sum.splits)

lemma getRankData_throws_iff:
  "(\<exists>e. snd (getRankData w) = Inl e) \<longleftrightarrow> (\<forall>csv. axios_get w \<noteq> Inr (JStr csv))"
proof (cases "axios_get w")
  case (Inl e)
  then show ?thesis by (simp add: getRankData_throws)
next
  case (Inr d)
  have "(\<exists>e. snd (getRankData w) = Inl e) \<longleftrightarrow> \<not> (\<exists>rows. parseStage d = Inr rows)"
    using Inr by (cases "parseStage d") (simp_all add: getRankData_def fetchAndParse_def)
  with Inr show ?thesis by (simp add: parseStage_returns_iff)
qed

lemma jsonWorld_throws:
  "getRankData jsonWorld =
     ([AxiosGet (Some 10000),
       ConsoleErrorMsg ''Error fetching Google Sheets data:'' ''csv.split is not a function''],
      Inl (JsError ''Failed to fetch rank data from Google Sheets'' None))"
  by (simp add: getRankData_def fetchAndParse_def parseStage_def csvOf_def jsonWorld_def)

lemma askReq_query: "destructureQuery (req_body askReq) = Inr (JStr ''Who is first?'')"
  by (simp add: askReq_def destructureQuery_def)

lemma ask_trim: "trim ''Who is first?'' \<noteq> []"
  by (simp add: trim_def isWhiteSpace_def)

lemma downWorld_fails: "axios_get downWorld = Inl (JsError ''timeout of 10000ms exceeded'' None)"
  by (simp add: downWorld_def)

lemma downWorld_clock: "clock downWorld = ''2024-01-01T00:00:00.000Z''"
  by (simp add: downWorld_def sheetWorld_def)

section \<open>Facts about the polling loops\<close>

lemma pollLoop_stop:
  "\<not> (pending st \<and> a < maxAttempts) \<Longrightarrow> pollLoop w tr st a = (tr, Inr st)"
  by (subst pollLoop.simps) (rule if_not_P)

lemma pollLoop_done: "\<not> pending st \<Longrightarrow> pollLoop w tr st a = (tr, Inr st)"
  by (rule pollLoop_stop) simp

lemma pollLoop_rejected:
  "pending st \<Longrightarrow> a < maxAttempts \<Longrightarrow> runs_retrieve w (Suc a) = Inl e \<Longrightarrow>
   pollLoop w tr st a = (tr @ [Sleep 1000, RunsRetrieve], Inl e)"
  by (subst pollLoop.simps) simp

lemma pollLoop_again:
  "pending st \<Longrightarrow> a < maxAttempts \<Longrightarrow> runs_retrieve w (Suc a) = Inr st' \<Longrightarrow>
   pollLoop w tr st a = pollLoop w (tr @ [Sleep 1000, RunsRetrieve]) st' (Suc a)"
  by (subst pollLoop.simps) simp

lemma pollLoop_index_done: "\<not> pending st \<Longrightarrow> pollLoop_index w tr st n = Some (tr, Inr st)"
  by (subst pollLoop_index.simps) simp

lemma pollLoop_index_never_returns:
  assumes stuck: "\<forall>k. \<exists>s. runs_retrieve w k = Inr s \<and> pending s" and st: "pending st"
  shows "pollLoop_index w tr st n = None"
proof (rule ccontr)
  assume "pollLoop_index w tr st n \<noteq> None"
  then obtain y where y: "pollLoop_index w tr st n = Some y" by blast
  have step: "\<not> ((\<forall>k. \<exists>s. runs_retrieve w' k = Inr s \<and> pending s) \<and> pending st')"
    if IH: "\<And>w tr st n y. loop w tr st n = Some y \<Longrightarrow>
              \<not> ((\<forall>k. \<exists>s. runs_retrieve w k = Inr s \<and> pending s) \<and> pending st)"
      and body: "(if pending st' then
          (case runs_retrieve w' (Suc n') of
             Inl e \<Rightarrow> Some (tr' @ [Sleep 1000, RunsRetrieve], Inl e)
           | Inr s \<Rightarrow> loop w' (tr' @ [Sleep 1000, RunsRetrieve]) s (Suc n'))
         else Some (tr', Inr st')) = Some y'"
    for loop w' tr' st' n' y'
  proof
    assume a: "(\<forall>k. \<exists>s. runs_retrieve w' k = Inr s \<and> pending s) \<and> pending st'"
    then obtain s where s: "runs_retrieve w' (Suc n') = Inr s" "pending s" by blast
    with a body have "loop w' (tr' @ [Sleep 1000, RunsRetrieve]) s (Suc n') = Some y'"
      by simp
    from IH[OF this] a s show False by blast
  qed
  have "\<not> ((\<forall>k. \<exists>s. runs_retrieve w k = Inr s \<and> pending s) \<and> pending st)"
    by (rule pollLoop_index.raw_induct[where P = "\<lambda>w tr st n y.
          \<not> ((\<forall>k. \<exists>s. runs_retrieve w k = Inr s \<and> pending s) \<and> pending st)", OF step y])
  with stuck st show False by blast
qed

lemma pollLoop_sleeps_bounded:
  "length (filter (\<lambda>ev. ev = Sleep 1000) (fst (pollLoop w tr st a)))
     \<le> length (filter (\<lambda>ev. ev = Sleep 1000) tr) + (maxAttempts - a)"
proof (induction w tr st a rule: pollLoop.induct)
  case (1 w tr st attempts)
  show ?case
  proof (cases "pending st \<and> attempts < maxAttempts")
    case False
    then show ?thesis by (simp add: pollLoop_stop)
  next
    case True
    show ?thesis
    proof (cases "runs_retrieve w (Suc attempts)")
      case (Inl e)
      with True show ?thesis by (auto simp: pollLoop_rejected)
    next
      case (Inr st')
      from "1.IH"[OF True Inr]
      have "length (filter (\<lambda>ev. ev = Sleep 1000)
               (fst (pollLoop w (tr @ [Sleep 1000, RunsRetrieve]) st' (Suc attempts))))
            \<le> length (filter (\<lambda>ev. ev = Sleep 1000) (tr @ [Sleep 1000, RunsRetrieve]))
                + (maxAttempts - Suc attempts)" .
      with True Inr show ?thesis by (auto simp: pollLoop_again)
    qed
  qed
qed

lemma pollLoop_budget:
  assumes stuck: "\<forall>k. \<exists>s. runs_retrieve w k = Inr s \<and> pending s"
  shows "pending st \<Longrightarrow> a \<le> maxAttempts \<Longrightarrow>
    \<exists>st'. pending st' \<and>
      pollLoop w tr st a =
        (tr @ concat (replicate (maxAttempts - a) [Sleep 1000, RunsRetrieve]), Inr st')"
proof (induction "maxAttempts - a" arbitrary: a tr st)
  case 0
  then have "\<not> (pending st \<and> a < maxAttempts)" by simp
  from pollLoop_stop[OF this] 0 show ?case by simp
next
  case (Suc d)
  then have lt: "a < maxAttempts" by simp
  from stuck obtain s where s: "runs_retrieve w (Suc a) = Inr s" "pending s" by blast
  have d: "d = maxAttempts - Suc a" using Suc.hyps(2) by simp
  have le: "Suc a \<le> maxAttempts" using lt by simp
  from Suc.hyps(1)[OF d s(2) le, of "tr @ [Sleep 1000, RunsRetrieve]"]
  obtain st' where st': "pending st'"
    "pollLoop w (tr @ [Sleep 1000, RunsRetrieve]) s (Suc a) =
       ((tr @ [Sleep 1000, RunsRetrieve]) @
          concat (replicate (maxAttempts - Suc a) [Sleep 1000, RunsRetrieve]), Inr st')"
    by blast
  have "maxAttempts - a = Suc (maxAttempts - Suc a)" using lt by simp
  then have "concat (replicate (maxAttempts - a) [Sleep 1000, RunsRetrieve])
      = [Sleep 1000, RunsRetrieve] @ concat (replicate (maxAttempts - Suc a) [Sleep 1000, RunsRetrieve])"
    by simp
  with st' pollLoop_again[OF Suc.prems(1) lt s(1), of tr] show ?case by simp
qed


lemma startRun_ok:
  assumes "threads_create w = Inr ()" "messages_create w = Inr ()" "runs_create w = Inr ()"
    and "runs_retrieve w 0 = Inr st"
  shows "startRun w query rankData =
    ([ThreadsCreate, MessagesCreate rankData query, RunsCreate ASSISTANT_ID, RunsRetrieve], Inr st)"
  using assms by (simp add: startRun_def)

lemma getGPTResponse_budget_exceeded:
  assumes ok: "threads_create w = Inr ()" "messages_create w = Inr ()" "runs_create w = Inr ()"
    and stuck: "\<forall>k. \<exists>s. runs_retrieve w k = Inr s \<and> pending s"
  shows "\<exists>st. pending st \<and> getGPTResponse w query rankData =
    ([ThreadsCreate, MessagesCreate rankData query, RunsCreate ASSISTANT_ID, RunsRetrieve]
       @ concat (replicate maxAttempts [Sleep 1000, RunsRetrieve])
       @ [ConsoleErrorMsg ''Error using OpenAI Assistant:'' (''Assistant run ended with status: '' @ st)],
     Inl (JsError ''Failed to get response from AI assistant'' None))"
proof -
  from stuck obtain s0 where s0: "runs_retrieve w 0 = Inr s0" "pending s0" by blast
  note start = startRun_ok[OF ok s0(1), of query rankData]
  from pollLoop_budget[OF stuck s0(2), of 0
      "[ThreadsCreate, MessagesCreate rankData query, RunsCreate ASSISTANT_ID, RunsRetrieve]"]
  obtain st where st: "pending st"
    "pollLoop w [ThreadsCreate, MessagesCreate rankData query, RunsCreate ASSISTANT_ID, RunsRetrieve] s0 0
      = ([ThreadsCreate, MessagesCreate rankData query, RunsCreate ASSISTANT_ID, RunsRetrieve]
          @ concat (replicate maxAttempts [Sleep 1000, RunsRetrieve]), Inr st)"
    by auto
  from st(1) have nc: "st \<noteq> ''completed''" by (auto simp: pending_def)
  have "getGPTResponse w query rankData =
    ([ThreadsCreate, MessagesCreate rankData query, RunsCreate ASSISTANT_ID, RunsRetrieve]
       @ concat (replicate maxAttempts [Sleep 1000, RunsRetrieve])
       @ [ConsoleErrorMsg ''Error using OpenAI Assistant:'' (''Assistant run ended with status: '' @ st)],
     Inl (JsError ''Failed to get response from AI assistant'' None))"
    using nc by (simp add: getGPTResponse_def getGPTResponse_try_def start st(2) finishRun_def)
  with st(1) show ?thesis by blast
qed

lemma startsWith_self_append: "startsWith (t @ s) t"
  by (induction t) auto

lemma stringIncludes_append: "stringIncludes (p @ t) t"
proof (induction p)
  case Nil
  have "startsWith (t @ []) t" by (rule startsWith_self_append)
  then show ?case by (cases t) auto
next
  case (Cons c p)
  then show ?case by simp
qed

lemma expiredWorld_start:
  "startRun expiredWorld (JStr ''Who is first?'') rows1 =
     ([ThreadsCreate, MessagesCreate rows1 (JStr ''Who is first?''), RunsCreate ASSISTANT_ID,
       RunsRetrieve], Inr ''expired'')"
  by (simp add: startRun_def expiredWorld_def sheetWorld_def)

lemma expired_not_pending: "\<not> pending ''expired''"
  by (simp add: pending_def)

lemma completed_not_pending: "\<not> pending ''completed''"
  by (simp add: pending_def)

lemma sheetWorld_start:
  "startRun (sheetWorld csv) query rankData =
     ([ThreadsCreate, MessagesCreate rankData query, RunsCreate ASSISTANT_ID, RunsRetrieve],
      Inr ''completed'')"
  by (simp add: startRun_def sheetWorld_def)

lemma sheetWorld_answer:
  "getGPTResponse_index (sheetWorld csv) query rankData =
     Some ([ThreadsCreate, MessagesCreate rankData query, RunsCreate ASSISTANT_ID, RunsRetrieve,
            MessagesList], Inr ''Acme is ranked first'')"
  by (simp add: getGPTResponse_index_def getGPTResponse_index_try_def sheetWorld_start
      pollLoop_index_done[OF completed_not_pending] finishRun_def)
     (simp add: sheetWorld_def)

lemma stuckWorld_stuck: "\<forall>k. \<exists>s. runs_retrieve stuckWorld k = Inr s \<and> pending s"
  by (simp add: stuckWorld_def pending_def)

lemma stuckWorld_start:
  "startRun stuckWorld query rankData =
     ([ThreadsCreate, MessagesCreate rankData query, RunsCreate ASSISTANT_ID, RunsRetrieve],
      Inr ''in_progress'')"
  by (simp add: startRun_def stuckWorld_def sheetWorld_def)

lemma stuckWorld_bounded:
  "\<exists>tr. getGPTResponse stuckWorld (JStr ''Who is first?'') rows1 =
      (tr, Inl (JsError ''Failed to get response from AI assistant'' None))
    \<and> length (filter (\<lambda>ev. ev = Sleep 1000) tr) = 60"
proof -
  have ok: "threads_create stuckWorld = Inr ()" "messages_create stuckWorld = Inr ()"
      "runs_create stuckWorld = Inr ()"
    by (simp_all add: stuckWorld_def sheetWorld_def)
  from getGPTResponse_budget_exceeded[OF ok stuckWorld_stuck, of "JStr ''Who is first?''" rows1]
  obtain st where st: "getGPTResponse stuckWorld (JStr ''Who is first?'') rows1 =
    ([ThreadsCreate, MessagesCreate rows1 (JStr ''Who is first?''), RunsCreate ASSISTANT_ID, RunsRetrieve]
       @ concat (replicate maxAttempts [Sleep 1000, RunsRetrieve])
       @ [ConsoleErrorMsg ''Error using OpenAI Assistant:'' (''Assistant run ended with status: '' @ st)],
     Inl (JsError ''Failed to get response from AI assistant'' None))"
    by blast
  have "length (filter (\<lambda>ev. ev = Sleep 1000) (concat (replicate n [Sleep 1000, RunsRetrieve]))) = n" for n
    by (induction n) simp_all
  then show ?thesis unfolding st by (simp add: maxAttempts_def)
qed

text \<open>
  A run whose status is pending at the retrievals before the \<open>k\<close>-th and is \<open>stk\<close> at the
  \<open>k\<close>-th: the loop with the counter polls \<open>k\<close> times and ends with \<open>stk\<close>, where \<open>stk\<close>
  is not pending or the budget is spent at \<open>k\<close>; the loop without counter does so where
  \<open>stk\<close> is not pending, and so it returns.
\<close>

lemma pollLoop_run:
  assumes last: "runs_retrieve w k = Inr stk"
    and stop: "\<not> pending stk \<or> k = maxAttempts"
    and kmax: "k \<le> maxAttempts"
  shows "(\<forall>i. a \<le> i \<and> i < k \<longrightarrow> (\<exists>s. runs_retrieve w i = Inr s \<and> pending s)) \<Longrightarrow>
    a \<le> k \<Longrightarrow> runs_retrieve w a = Inr st \<Longrightarrow>
    pollLoop w tr st a = (tr @ concat (replicate (k - a) [Sleep 1000, RunsRetrieve]), Inr stk)"
proof (induction "k - a" arbitrary: a tr st)
  case 0
  then have ak: "a = k" by simp
  with 0 last have st: "st = stk" by simp
  from stop ak st have "\<not> (pending st \<and> a < maxAttempts)" by auto
  from pollLoop_stop[OF this] ak st show ?case by simp
next
  case (Suc d)
  then have lt: "a < k" by simp
  with kmax have amax: "a < maxAttempts" by simp
  from Suc.prems(1) lt obtain s where "runs_retrieve w a = Inr s" "pending s" by blast
  with Suc.prems(3) have p: "pending st" by simp
  have "\<exists>s'. runs_retrieve w (Suc a) = Inr s'"
  proof (cases "Suc a = k")
    case True
    with last show ?thesis by blast
  next
    case False
    with lt have "a \<le> Suc a \<and> Suc a < k" by simp
    with Suc.prems(1) show ?thesis by blast
  qed
  then obtain s' where s': "runs_retrieve w (Suc a) = Inr s'" by blast
  have d: "d = k - Suc a" using Suc.hyps(2) by simp
  have rest: "\<forall>i. Suc a \<le> i \<and> i < k \<longrightarrow> (\<exists>s. runs_retrieve w i = Inr s \<and> pending s)"
    using Suc.prems(1) by simp
  have le: "Suc a \<le> k" using lt by simp
  note IH = Suc.hyps(1)[OF d rest le s', of "tr @ [Sleep 1000, RunsRetrieve]"]
  have "k - a = Suc (k - Suc a)" using lt by simp
  then have "concat (replicate (k - a) [Sleep 1000, RunsRetrieve])
      = [Sleep 1000, RunsRetrieve] @ concat (replicate (k - Suc a) [Sleep 1000, RunsRetrieve])"
    by simp
  with IH pollLoop_again[OF p amax s', of tr] show ?case by simp
qed

lemma pollLoop_index_again:
  "pending st \<Longrightarrow> runs_retrieve w (Suc n) = Inr st' \<Longrightarrow>
   pollLoop_index w tr st n = pollLoop_index w (tr @ [Sleep 1000, RunsRetrieve]) st' (Suc n)"
  by (subst pollLoop_index.simps) simp

lemma pollLoop_index_run:
  assumes last: "runs_retrieve w k = Inr stk" and stop: "\<not> pending stk"
  shows "(\<forall>i. a \<le> i \<and> i < k \<longrightarrow> (\<exists>s. runs_retrieve w i = Inr s \<and> pending s)) \<Longrightarrow>
    a \<le> k \<Longrightarrow> runs_retrieve w a = Inr st \<Longrightarrow>
    pollLoop_index w tr st a =
      Some (tr @ concat (replicate (k - a) [Sleep 1000, RunsRetrieve]), Inr stk)"
proof (induction "k - a" arbitrary: a tr st)
  case 0
  then have ak: "a = k" by simp
  with 0 last have st: "st = stk" by simp
  from pollLoop_index_done[of st w tr a] stop ak st show ?case by simp
next
  case (Suc d)
  then have lt: "a < k" by simp
  from Suc.prems(1) lt obtain s where "runs_retrieve w a = Inr s" "pending s" by blast
  with Suc.prems(3) have p: "pending st" by simp
  have "\<exists>s'. runs_retrieve w (Suc a) = Inr s'"
  proof (cases "Suc a = k")
    case True
    with last show ?thesis by blast
  next
    case False
    with lt have "a \<le> Suc a \<and> Suc a < k" by simp
    with Suc.prems(1) show ?thesis by blast
  qed
  then obtain s' where s': "runs_retrieve w (Suc a) = Inr s'" by blast
  have d: "d = k - Suc a" using Suc.hyps(2) by simp
  have rest: "\<forall>i. Suc a \<le> i \<and> i < k \<longrightarrow> (\<exists>s. runs_retrieve w i = Inr s \<and> pending s)"
    using Suc.prems(1) by simp
  have le: "Suc a \<le> k" using lt by simp
  note IH = Suc.hyps(1)[OF d rest le s', of "tr @ [Sleep 1000, RunsRetrieve]"]
  have "k - a = Suc (k - Suc a)" using lt by simp
  then have "concat (replicate (k - a) [Sleep 1000, RunsRetrieve])
      = [Sleep 1000, RunsRetrieve] @ concat (replicate (k - Suc a) [Sleep 1000, RunsRetrieve])"
    by simp
  with IH pollLoop_index_again[OF p s', of tr] show ?case by simp
qed

lemma failingWorld_ok:
  "threads_create failingWorld = Inr ()" "messages_create failingWorld = Inr ()"
  "runs_create failingWorld = Inr ()"
  by (simp_all add: failingWorld_def sheetWorld_def)

lemma stuckWorld_ok:
  "threads_create stuckWorld = Inr ()" "messages_create stuckWorld = Inr ()"
  "runs_create stuckWorld = Inr ()"
  by (simp_all add: stuckWorld_def sheetWorld_def)

section \<open>Empty and header-only bodies\<close>

text \<open>
  Claim C6. For a body with no non-blank line, or with a header line only, getRankData
  returns the empty list, and the POST /query handler, given a valid query, answers
  500 with the data-unavailable body without calling the assistant (index.js: 500 with
  its own one-field body).
\<close>

theorem no_data_lines_is_data_unavailable:
  assumes body: "axios_get w = Inr (JStr csv)"
    and few: "length (nonBlankLines csv) \<le> 1"
    and q: "destructureQuery (req_body req) = Inr (JStr q)" "trim q \<noteq> []"
  shows "snd (getRankData w) = Inr []
    \<and> snd (getRankData_index w) = Inr []
    \<and> postQuery w req =
        ([ConsoleLog [JStr ''Received query:'', JStr q], AxiosGet (Some 10000)], dataUnavailable)
    \<and> res_status dataUnavailable = 500
    \<and> postQuery_index w req =
        Some ([AxiosGet None], errorOnly 500 ''Could not fetch rank data from Google Sheets'')"
proof -
  have p: "parseCsv csv = []"
  proof (cases "nonBlankLines csv")
    case Nil
    then show ?thesis by (rule parseCsv_no_lines)
  next
    case (Cons header rest)
    with few have "rest = []" by simp
    with Cons show ?thesis by (simp add: parseCsv_header)
  qed
  have g: "getRankData w = ([AxiosGet (Some 10000)], Inr [])"
    using getRankData_string[OF body] p by simp
  have gi: "getRankData_index w = ([AxiosGet None], Inr [])"
    using getRankData_index_string[OF body] p by simp
  have h: "postQuery w req =
        ([ConsoleLog [JStr ''Received query:'', JStr q], AxiosGet (Some 10000)], dataUnavailable)"
    by (simp add: postQuery_def valid_query_passes[OF q] g)
  from q(2) have "q \<noteq> []" using trim_Nil by blast
  then have hi: "postQuery_index w req =
        Some ([AxiosGet None], errorOnly 500 ''Could not fetch rank data from Google Sheets'')"
    using q(1) by (simp add: postQuery_index_def postQuery_index_try_def truthy_def gi)
  show ?thesis
    using g gi h hi by (simp add: dataUnavailable_def)
qed

theorem no_data_lines_is_data_unavailable_witness:
  "snd (getRankData (sheetWorld ''Rank,Company'')) = Inr []
   \<and> postQuery (sheetWorld ''Rank,Company'') askReq =
       ([ConsoleLog [JStr ''Received query:'', JStr ''Who is first?''], AxiosGet (Some 10000)],
        dataUnavailable)"
proof -
  have few: "length (nonBlankLines ''Rank,Company'') \<le> 1"
    by (simp add: nonBlankLines_def trim_def isWhiteSpace_def)
  note th = no_data_lines_is_data_unavailable[OF sheetWorld_body few askReq_query ask_trim]
  have "snd (getRankData (sheetWorld ''Rank,Company'')) = Inr []"
    using th by (rule conjunct1)
  moreover have "postQuery (sheetWorld ''Rank,Company'') askReq =
       ([ConsoleLog [JStr ''Received query:'', JStr ''Who is first?''], AxiosGet (Some 10000)],
        dataUnavailable)"
    using th[THEN conjunct2, THEN conjunct2] by (rule conjunct1)
  ultimately show ?thesis by (rule conjI)
qed


section \<open>The health probe\<close>

lemma ciEqual_length: "ciEqual s t \<Longrightarrow> length s = length t"
  by (auto simp: ciEqual_def dest: map_eq_imp_length_eq)

lemma health_is_not_root: "routeMatches ''/health'' p \<Longrightarrow> \<not> routeMatches ''/'' p"
  by (auto simp: routeMatches_def dest!: ciEqual_length)

lemma health_path_matches: "routeMatches ''/health'' ''/health''"
  by (simp add: routeMatches_def ciEqual_def)

text \<open>
  Claim C8. Every GET /health request (its path matching the route as Express matches
  it, so also with other letter case or a slash at the end) is answered 200 with the JSON
  body of status "healthy" and the clock reading as timestamp; nothing is called, and the
  answer is the same in every world with the same clock reading, whatever the
  spreadsheet and the assistant service do.
\<close>

theorem health_is_independent:
  assumes "req_method req = ''GET''" and "routeMatches ''/health'' (req_path req)"
  shows "app w req =
      ([], \<lparr>res_status = 200, res_headers = corsHeaders,
            res_body = JObj [(''status'', JStr ''healthy''), (''timestamp'', JStr (clock w))]\<rparr>)
    \<and> (\<forall>w'. clock w' = clock w \<longrightarrow> app w' req = app w req)"
  using assms health_is_not_root[OF assms(2)]
  by (simp add: app_def route_def health_def servedByGet_def sent_def)

theorem health_is_independent_witness:
  "app downWorld healthReq =
      ([], \<lparr>res_status = 200, res_headers = corsHeaders,
            res_body = JObj [(''status'', JStr ''healthy''),
                             (''timestamp'', JStr ''2024-01-01T00:00:00.000Z'')]\<rparr>)
   \<and> app downWorld healthReq2 =
      ([], \<lparr>res_status = 200, res_headers = corsHeaders,
            res_body = JObj [(''status'', JStr ''healthy''),
                             (''timestamp'', JStr ''2024-01-01T00:00:00.000Z'')]\<rparr>)"
proof -
  have m: "req_method healthReq = ''GET''" and p: "routeMatches ''/health'' (req_path healthReq)"
    by (simp_all add: healthReq_def health_path_matches)
  have m2: "req_method healthReq2 = ''GET''"
    by (simp add: healthReq2_def)
  have p2: "routeMatches ''/health'' (req_path healthReq2)"
    by (simp add: healthReq2_def routeMatches_def ciEqual_def asciiUpper_def)
  have c: "clock downWorld = ''2024-01-01T00:00:00.000Z''"
    by (simp add: downWorld_def sheetWorld_def)
  have "app downWorld healthReq =
      ([], \<lparr>res_status = 200, res_headers = corsHeaders,
            res_body = JObj [(''status'', JStr ''healthy''),
                             (''timestamp'', JStr ''2024-01-01T00:00:00.000Z'')]\<rparr>)"
    using health_is_independent[OF m p, of downWorld, THEN conjunct1] unfolding c .
  moreover have "app downWorld healthReq2 =
      ([], \<lparr>res_status = 200, res_headers = corsHeaders,
            res_body = JObj [(''status'', JStr ''healthy''),
                             (''timestamp'', JStr ''2024-01-01T00:00:00.000Z'')]\<rparr>)"
    using health_is_independent[OF m2 p2, of downWorld, THEN conjunct1] unfolding c .
  ultimately show ?thesis by (rule conjI)
qed

section \<open>A spreadsheet request that fails\<close>

text \<open>
  Claim C4, as the code has it. For a valid query, when getRankData throws (the request
  failed, or the body was not a string), the handler answers 500 and never calls the
  assistant; the body is the one of a processing failure, with the fixed message that
  getRankData throws (index.js: 500 with the message of the error thrown). The
  data-unavailable body is sent only when getRankData returns the empty list.
\<close>

theorem fetch_throws_processing_failed:
  assumes q: "destructureQuery (req_body req) = Inr (JStr q)" "trim q \<noteq> []"
  shows "(\<forall>e. snd (getRankData w) = Inl e \<longrightarrow>
            postQuery w req =
              ([ConsoleLog [JStr ''Received query:'', JStr q]] @ fst (getRankData w) @
               [ConsoleError ''Error processing query:''
                  (JsError ''Failed to fetch rank data from Google Sheets'' None)],
               \<lparr>res_status = 500, res_headers = [],
                res_body = JObj
                  [(''success'', JBool False),
                   (''error'', JStr ''Processing failed''),
                   (''message'', JStr ''Failed to fetch rank data from Google Sheets''),
                   (''timestamp'', JStr (clock w))]\<rparr>)
            \<and> filter isAssistantCall (fst (postQuery w req)) = [])
    \<and> (\<forall>e. snd (getRankData_index w) = Inl e \<longrightarrow>
            postQuery_index w req =
              Some ([AxiosGet None, ConsoleError ''Error processing query:'' e],
                    errorOnly 500 (errorMessage_index e)))
    \<and> (snd (postQuery w req) = dataUnavailable \<longrightarrow> snd (getRankData w) = Inr [])"
proof -
  have A: "postQuery w req =
              ([ConsoleLog [JStr ''Received query:'', JStr q]] @ fst (getRankData w) @
               [ConsoleError ''Error processing query:''
                  (JsError ''Failed to fetch rank data from Google Sheets'' None)],
               \<lparr>res_status = 500, res_headers = [],
                res_body = JObj
                  [(''success'', JBool False),
                   (''error'', JStr ''Processing failed''),
                   (''message'', JStr ''Failed to fetch rank data from Google Sheets''),
                   (''timestamp'', JStr (clock w))]\<rparr>)
            \<and> filter isAssistantCall (fst (postQuery w req)) = []"
    if t: "snd (getRankData w) = Inl e" for e
  proof -
    from getRankData_thrown[OF t] obtain m where
      e: "e = JsError ''Failed to fetch rank data from Google Sheets'' None" and
      tr: "fst (getRankData w) =
          [AxiosGet (Some 10000), ConsoleErrorMsg ''Error fetching Google Sheets data:'' m]"
      by blast
    obtain tr1 where g: "getRankData w = (tr1, Inl e)"
      using t by (cases "getRankData w") simp
    have h: "postQuery w req =
              ([ConsoleLog [JStr ''Received query:'', JStr q]] @ fst (getRankData w) @
               [ConsoleError ''Error processing query:'' e], processingFailed w e)"
      by (simp add: postQuery_def valid_query_passes[OF q] g)
    have a: "filter isAssistantCall (fst (postQuery w req)) = []"
      unfolding h by (simp add: tr isAssistantCall_def)
    from h a show ?thesis
      unfolding e by (simp add: processingFailed_def)
  qed
  from q(2) have ne: "q \<noteq> []" using trim_Nil by blast
  have B: "postQuery_index w req =
              Some ([AxiosGet None, ConsoleError ''Error processing query:'' e],
                    errorOnly 500 (errorMessage_index e))"
    if t: "snd (getRankData_index w) = Inl e" for e
  proof -
    have g: "getRankData_index w = ([AxiosGet None], Inl e)"
      using t getRankData_index_thrown[OF t] by (simp add: prod_eq_iff)
    show ?thesis
      using ne q(1)
      by (simp add: postQuery_index_def postQuery_index_try_def truthy_def g)
  qed
  have C: "snd (getRankData w) = Inr []" if d: "snd (postQuery w req) = dataUnavailable"
  proof (cases "getRankData w")
    case (Pair tr1 r)
    show ?thesis
    proof (cases r)
      case (Inl e)
      with Pair d show ?thesis
        by (simp add: postQuery_def valid_query_passes[OF q] processingFailed_def
            dataUnavailable_def)
    next
      case (Inr rankData)
      show ?thesis
      proof (cases "rankData = []")
        case True
        with Pair Inr show ?thesis by simp
      next
        case False
        obtain tr3 r3 where g: "getGPTResponse w (JStr q) rankData = (tr3, r3)"
          by (cases "getGPTResponse w (JStr q) rankData")
        from Pair Inr False g d show ?thesis
          by (cases r3)
            (simp_all add: postQuery_def valid_query_passes[OF q] processingFailed_def
              dataUnavailable_def answered_def)
      qed
    qed
  qed
  show ?thesis
    apply (intro conjI allI impI)
       apply (erule A[THEN conjunct1])
      apply (erule A[THEN conjunct2])
     apply (erule B)
    apply (erule C)
    done
qed

theorem fetch_throws_processing_failed_witness:
  "snd (postQuery downWorld askReq) =
       \<lparr>res_status = 500, res_headers = [],
        res_body = JObj
          [(''success'', JBool False),
           (''error'', JStr ''Processing failed''),
           (''message'', JStr ''Failed to fetch rank data from Google Sheets''),
           (''timestamp'', JStr ''2024-01-01T00:00:00.000Z'')]\<rparr>
   \<and> filter isAssistantCall (fst (postQuery downWorld askReq)) = []
   \<and> postQuery jsonWorld askReq =
       ([ConsoleLog [JStr ''Received query:'', JStr ''Who is first?''],
         AxiosGet (Some 10000),
         ConsoleErrorMsg ''Error fetching Google Sheets data:'' ''csv.split is not a function'',
         ConsoleError ''Error processing query:''
           (JsError ''Failed to fetch rank data from Google Sheets'' None)],
        \<lparr>res_status = 500, res_headers = [],
         res_body = JObj
           [(''success'', JBool False),
            (''error'', JStr ''Processing failed''),
            (''message'', JStr ''Failed to fetch rank data from Google Sheets''),
            (''timestamp'', JStr ''2024-01-01T00:00:00.000Z'')]\<rparr>)
   \<and> postQuery_index jsonWorld askReq =
       Some ([AxiosGet None,
              ConsoleError ''Error processing query:'' (JsError ''csv.split is not a function'' None)],
             errorOnly 500 ''csv.split is not a function'')
   \<and> snd (getRankData (sheetWorld ''Rank,Company'')) = Inr []"
proof -
  have d: "snd (getRankData downWorld) =
      Inl (JsError ''Failed to fetch rank data from Google Sheets'' None)"
    by (simp add: getRankData_throws[OF downWorld_fails])
  have j: "snd (getRankData jsonWorld) =
      Inl (JsError ''Failed to fetch rank data from Google Sheets'' None)"
    by (simp add: jsonWorld_throws)
  have ji: "snd (getRankData_index jsonWorld) = Inl (JsError ''csv.split is not a function'' None)"
    by (simp add: getRankData_index_def fetchAndParse_def parseStage_def csvOf_def jsonWorld_def)
  have jc: "clock jsonWorld = ''2024-01-01T00:00:00.000Z''"
    by (simp add: jsonWorld_def sheetWorld_def)
  have hc: "clock (sheetWorld ''Rank,Company'') = ''2024-01-01T00:00:00.000Z''"
    by (simp add: sheetWorld_def)
  have few: "nonBlankLines ''Rank,Company'' = [''Rank,Company'']"
    by (simp add: nonBlankLines_def trim_def isWhiteSpace_def)
  have ho: "snd (postQuery (sheetWorld ''Rank,Company'') askReq) = dataUnavailable"
    by (simp add: postQuery_def valid_query_passes[OF askReq_query ask_trim]
        getRankData_string[OF sheetWorld_body] parseCsv_header[OF few])
  note th = fetch_throws_processing_failed[OF askReq_query ask_trim]
  have "snd (postQuery downWorld askReq) =
       \<lparr>res_status = 500, res_headers = [],
        res_body = JObj
          [(''success'', JBool False),
           (''error'', JStr ''Processing failed''),
           (''message'', JStr ''Failed to fetch rank data from Google Sheets''),
           (''timestamp'', JStr ''2024-01-01T00:00:00.000Z'')]\<rparr>"
    using th[of downWorld, THEN conjunct1, rule_format, OF d, THEN conjunct1]
    by (simp add: downWorld_clock)
  moreover have "filter isAssistantCall (fst (postQuery downWorld askReq)) = []"
    using th[of downWorld, THEN conjunct1, rule_format, OF d] by (rule conjunct2)
  moreover have "postQuery jsonWorld askReq =
       ([ConsoleLog [JStr ''Received query:'', JStr ''Who is first?''],
         AxiosGet (Some 10000),
         ConsoleErrorMsg ''Error fetching Google Sheets data:'' ''csv.split is not a function'',
         ConsoleError ''Error processing query:''
           (JsError ''Failed to fetch rank data from Google Sheets'' None)],
        \<lparr>res_status = 500, res_headers = [],
         res_body = JObj
           [(''success'', JBool False),
            (''error'', JStr ''Processing failed''),
            (''message'', JStr ''Failed to fetch rank data from Google Sheets''),
            (''timestamp'', JStr ''2024-01-01T00:00:00.000Z'')]\<rparr>)"
    using th[of jsonWorld, THEN conjunct1, rule_format, OF j, THEN conjunct1]
    by (simp add: jsonWorld_throws jc)
  moreover have "postQuery_index jsonWorld askReq =
       Some ([AxiosGet None,
              ConsoleError ''Error processing query:'' (JsError ''csv.split is not a function'' None)],
             errorOnly 500 ''csv.split is not a function'')"
    using th[of jsonWorld, THEN conjunct2, THEN conjunct1, rule_format, OF ji]
    by (simp add: errorMessage_index_def)
  moreover have "snd (getRankData (sheetWorld ''Rank,Company'')) = Inr []"
    using th[of "sheetWorld ''Rank,Company''", THEN conjunct2, THEN conjunct2, rule_format, OF ho] .
  ultimately show ?thesis by (intro conjI)
qed

text \<open>
  Claim C4, as stated, fails: with the spreadsheet request timing out, the body of the
  500 answer is not the data-unavailable body.
\<close>

theorem fetch_throws_counterexample:
  "res_status (snd (postQuery downWorld askReq)) = 500
   \<and> res_body (snd (postQuery downWorld askReq)) \<noteq> res_body dataUnavailable"
  by (simp add: postQuery_def valid_query_passes[OF askReq_query ask_trim]
      getRankData_throws[OF downWorld_fails] processingFailed_def dataUnavailable_def)

section \<open>What a failed run throws\<close>

text \<open>
  Claim C5, as the code has it. Take a run whose status is pending at the first \<open>k\<close>
  retrievals and \<open>st\<close>, other than completed, at the next one. Where \<open>st\<close> is terminal
  and reached within the attempt budget, or still pending when the budget is spent,
  getGPTResponse of the file with the budget polls \<open>k\<close> times, writes a message carrying
  \<open>st\<close> to the error log and throws an error with a fixed message. Where \<open>st\<close> is
  terminal, getGPTResponse of index.js returns after \<open>k\<close> polls by throwing an error whose
  message carries \<open>st\<close>.
\<close>

theorem run_status_is_logged_not_thrown:
  assumes ok: "threads_create w = Inr ()" "messages_create w = Inr ()" "runs_create w = Inr ()"
    and pend: "\<forall>i<k. \<exists>s. runs_retrieve w i = Inr s \<and> pending s"
    and last: "runs_retrieve w k = Inr st"
    and nc: "st \<noteq> ''completed''"
  shows "(k \<le> maxAttempts \<and> (\<not> pending st \<or> k = maxAttempts) \<longrightarrow>
            getGPTResponse w query rankData =
              ([ThreadsCreate, MessagesCreate rankData query, RunsCreate ASSISTANT_ID,
                RunsRetrieve]
               @ concat (replicate k [Sleep 1000, RunsRetrieve])
               @ [ConsoleErrorMsg ''Error using OpenAI Assistant:''
                    (''Assistant run ended with status: '' @ st)],
               Inl (JsError ''Failed to get response from AI assistant'' None))
            \<and> stringIncludes (''Assistant run ended with status: '' @ st) st)
    \<and> (\<not> pending st \<longrightarrow>
            getGPTResponse_index w query rankData =
              Some ([ThreadsCreate, MessagesCreate rankData query, RunsCreate ASSISTANT_ID,
                     RunsRetrieve]
                    @ concat (replicate k [Sleep 1000, RunsRetrieve])
                    @ [ConsoleError ''Error using Assistant:''
                         (JsError (''Run ended with status: '' @ st) None)],
                    Inl (JsError (''Run ended with status: '' @ st) None))
            \<and> stringIncludes (''Run ended with status: '' @ st) st)"
proof -
  have "\<exists>st0. runs_retrieve w 0 = Inr st0"
  proof (cases k)
    case 0
    with last show ?thesis by blast
  next
    case (Suc j)
    with pend show ?thesis by blast
  qed
  then obtain st0 where r0: "runs_retrieve w 0 = Inr st0" by blast
  note start = startRun_ok[OF ok r0, of query rankData]
  have before: "\<forall>i. 0 \<le> i \<and> i < k \<longrightarrow> (\<exists>s. runs_retrieve w i = Inr s \<and> pending s)"
    using pend by simp
  have A: "getGPTResponse w query rankData =
              ([ThreadsCreate, MessagesCreate rankData query, RunsCreate ASSISTANT_ID,
                RunsRetrieve]
               @ concat (replicate k [Sleep 1000, RunsRetrieve])
               @ [ConsoleErrorMsg ''Error using OpenAI Assistant:''
                    (''Assistant run ended with status: '' @ st)],
               Inl (JsError ''Failed to get response from AI assistant'' None))"
    if b: "k \<le> maxAttempts \<and> (\<not> pending st \<or> k = maxAttempts)"
  proof -
    from b have stop: "\<not> pending st \<or> k = maxAttempts" and kmax: "k \<le> maxAttempts"
      by blast+
    have z: "(0::nat) \<le> k" by simp
    note loop = pollLoop_run[OF last stop kmax before z r0,
        of "[ThreadsCreate, MessagesCreate rankData query, RunsCreate ASSISTANT_ID, RunsRetrieve]"]
    show ?thesis
      using nc by (simp add: getGPTResponse_def getGPTResponse_try_def start loop finishRun_def)
  qed
  have B: "getGPTResponse_index w query rankData =
              Some ([ThreadsCreate, MessagesCreate rankData query, RunsCreate ASSISTANT_ID,
                     RunsRetrieve]
                    @ concat (replicate k [Sleep 1000, RunsRetrieve])
                    @ [ConsoleError ''Error using Assistant:''
                         (JsError (''Run ended with status: '' @ st) None)],
                    Inl (JsError (''Run ended with status: '' @ st) None))"
    if stop: "\<not> pending st"
  proof -
    have z: "(0::nat) \<le> k" by simp
    note loop = pollLoop_index_run[OF last stop before z r0,
        of "[ThreadsCreate, MessagesCreate rankData query, RunsCreate ASSISTANT_ID, RunsRetrieve]"]
    show ?thesis
      using nc
      by (simp add: getGPTResponse_index_def getGPTResponse_index_try_def start loop
          finishRun_def)
  qed
  show ?thesis
    apply (intro conjI impI)
       apply (erule A)
      apply (rule stringIncludes_append)
     apply (erule B)
    apply (rule stringIncludes_append)
    done
qed

theorem run_status_is_logged_not_thrown_witness:
  "getGPTResponse failingWorld (JStr ''Who is first?'') rows1 =
     ([ThreadsCreate, MessagesCreate rows1 (JStr ''Who is first?''), RunsCreate ASSISTANT_ID,
       RunsRetrieve, Sleep 1000, RunsRetrieve, Sleep 1000, RunsRetrieve,
       ConsoleErrorMsg ''Error using OpenAI Assistant:'' ''Assistant run ended with status: failed''],
      Inl (JsError ''Failed to get response from AI assistant'' None))
   \<and> getGPTResponse_index failingWorld (JStr ''Who is first?'') rows1 =
     Some ([ThreadsCreate, MessagesCreate rows1 (JStr ''Who is first?''), RunsCreate ASSISTANT_ID,
            RunsRetrieve, Sleep 1000, RunsRetrieve, Sleep 1000, RunsRetrieve,
            ConsoleError ''Error using Assistant:'' (JsError ''Run ended with status: failed'' None)],
           Inl (JsError ''Run ended with status: failed'' None))
   \<and> getGPTResponse stuckWorld (JStr ''Who is first?'') rows1 =
     ([ThreadsCreate, MessagesCreate rows1 (JStr ''Who is first?''), RunsCreate ASSISTANT_ID,
       RunsRetrieve]
      @ concat (replicate 60 [Sleep 1000, RunsRetrieve])
      @ [ConsoleErrorMsg ''Error using OpenAI Assistant:''
           ''Assistant run ended with status: in_progress''],
      Inl (JsError ''Failed to get response from AI assistant'' None))"
proof -
  have pend: "\<forall>i<2. \<exists>s. runs_retrieve failingWorld i = Inr s \<and> pending s"
    by (auto simp: failingWorld_def pending_def)
  have last: "runs_retrieve failingWorld 2 = Inr ''failed''"
    by (simp add: failingWorld_def)
  have nc: "''failed'' \<noteq> ''completed''" by simp
  have np: "\<not> pending ''failed''" by (simp add: pending_def)
  have budget: "2 \<le> maxAttempts \<and> (\<not> pending ''failed'' \<or> 2 = maxAttempts)"
    using np by (simp add: maxAttempts_def)
  have two: "concat (replicate 2 [Sleep 1000, RunsRetrieve])
      = [Sleep 1000, RunsRetrieve, Sleep 1000, RunsRetrieve]"
    by (simp add: numeral_2_eq_2)
  note th = run_status_is_logged_not_thrown[OF failingWorld_ok pend last nc,
      of "JStr ''Who is first?''" rows1]
  have spend: "\<forall>i<60. \<exists>s. runs_retrieve stuckWorld i = Inr s \<and> pending s"
    by (simp add: stuckWorld_def pending_def)
  have slast: "runs_retrieve stuckWorld 60 = Inr ''in_progress''"
    by (simp add: stuckWorld_def)
  have snc: "''in_progress'' \<noteq> ''completed''" by simp
  have sbudget: "60 \<le> maxAttempts \<and> (\<not> pending ''in_progress'' \<or> 60 = maxAttempts)"
    by (simp add: maxAttempts_def)
  note sth = run_status_is_logged_not_thrown[OF stuckWorld_ok spend slast snc,
      of "JStr ''Who is first?''" rows1]
  have "getGPTResponse failingWorld (JStr ''Who is first?'') rows1 =
     ([ThreadsCreate, MessagesCreate rows1 (JStr ''Who is first?''), RunsCreate ASSISTANT_ID,
       RunsRetrieve, Sleep 1000, RunsRetrieve, Sleep 1000, RunsRetrieve,
       ConsoleErrorMsg ''Error using OpenAI Assistant:'' ''Assistant run ended with status: failed''],
      Inl (JsError ''Failed to get response from AI assistant'' None))"
    using th[THEN conjunct1, rule_format, OF budget, THEN conjunct1] unfolding two by simp
  moreover have "getGPTResponse_index failingWorld (JStr ''Who is first?'') rows1 =
     Some ([ThreadsCreate, MessagesCreate rows1 (JStr ''Who is first?''), RunsCreate ASSISTANT_ID,
            RunsRetrieve, Sleep 1000, RunsRetrieve, Sleep 1000, RunsRetrieve,
            ConsoleError ''Error using Assistant:'' (JsError ''Run ended with status: failed'' None)],
           Inl (JsError ''Run ended with status: failed'' None))"
    using th[THEN conjunct2, rule_format, OF np, THEN conjunct1] unfolding two by simp
  moreover have "getGPTResponse stuckWorld (JStr ''Who is first?'') rows1 =
     ([ThreadsCreate, MessagesCreate rows1 (JStr ''Who is first?''), RunsCreate ASSISTANT_ID,
       RunsRetrieve]
      @ concat (replicate 60 [Sleep 1000, RunsRetrieve])
      @ [ConsoleErrorMsg ''Error using OpenAI Assistant:''
           ''Assistant run ended with status: in_progress''],
      Inl (JsError ''Failed to get response from AI assistant'' None))"
    using sth[THEN conjunct1, rule_format, OF sbudget, THEN conjunct1] by simp
  ultimately show ?thesis by (intro conjI)
qed

text \<open>
  Claim C5, as stated, fails: for an expired run the message of the error thrown does not
  contain the status.
\<close>

theorem run_status_counterexample:
  "snd (getGPTResponse expiredWorld (JStr ''Who is first?'') rows1) =
     Inl (JsError ''Failed to get response from AI assistant'' None)
   \<and> \<not> stringIncludes ''Failed to get response from AI assistant'' ''expired''"
proof -
  have "snd (getGPTResponse expiredWorld (JStr ''Who is first?'') rows1) =
     Inl (JsError ''Failed to get response from AI assistant'' None)"
    by (simp add: getGPTResponse_def getGPTResponse_try_def expiredWorld_start
        pollLoop_done[OF expired_not_pending] finishRun_def)
  moreover have "\<not> stringIncludes ''Failed to get response from AI assistant'' ''expired''"
    by simp
  ultimately show ?thesis by (rule conjI)
qed

section \<open>Validation of the query\<close>

text \<open>
  Claim C2 at the request body \<open>{ "query": 123 }\<close> in index.js: the handler does not
  answer 400; it fetches the spreadsheet, hands the number to the assistant and answers
  200. (The other file rejects the request, see \<open>postQuery_rejects_invalid_query\<close>.)
\<close>

theorem index_accepts_number_query:
  "postQuery_index (sheetWorld csv1) numberReq =
     Some ([AxiosGet None, ThreadsCreate, MessagesCreate rows1 (JNum 123), RunsCreate ASSISTANT_ID,
            RunsRetrieve, MessagesList],
           \<lparr>res_status = 200, res_headers = [],
            res_body = JObj [(''answer'', JStr ''Acme is ranked first'')]\<rparr>)"
proof -
  have q: "destructureQuery (req_body numberReq) = Inr (JNum 123)"
    by (simp add: numberReq_def destructureQuery_def)
  have r: "rows1 \<noteq> []" by (simp add: rows1_def)
  show ?thesis
    using r
    by (simp add: postQuery_index_def postQuery_index_try_def q truthy_def
        getRankData_index_string[OF sheetWorld_body] parseCsv_csv1 sheetWorld_answer)
qed

lemma index_accepts_blank_query:
  "postQuery_index (sheetWorld csv1) blankReq =
     Some ([AxiosGet None, ThreadsCreate, MessagesCreate rows1 (JStr ''   ''), RunsCreate ASSISTANT_ID,
            RunsRetrieve, MessagesList],
           \<lparr>res_status = 200, res_headers = [],
            res_body = JObj [(''answer'', JStr ''Acme is ranked first'')]\<rparr>)"
proof -
  have q: "destructureQuery (req_body blankReq) = Inr (JStr ''   '')"
    by (simp add: blankReq_def destructureQuery_def)
  have r: "rows1 \<noteq> []" by (simp add: rows1_def)
  show ?thesis
    using r
    by (simp add: postQuery_index_def postQuery_index_try_def q truthy_def
        getRankData_index_string[OF sheetWorld_body] parseCsv_csv1 sheetWorld_answer)
qed

section \<open>The end of polling\<close>

text \<open>
  Claim C3 in index.js, for a run that stays in progress: getGPTResponse never returns
  and the handler never answers. (The other file gives up after 60 polls, see
  \<open>getGPTResponse_budget_exceeded\<close> and \<open>pollLoop_sleeps_bounded\<close>.)
\<close>

theorem index_polling_never_ends:
  "getGPTResponse_index stuckWorld (JStr ''Who is first?'') rows1 = None
   \<and> postQuery_index stuckWorld askReq = None"
proof -
  have p: "pending ''in_progress''" by (simp add: pending_def)
  have g: "getGPTResponse_index stuckWorld query rankData = None" for query rankData
    by (simp add: getGPTResponse_index_def getGPTResponse_index_try_def stuckWorld_start
        pollLoop_index_never_returns[OF stuckWorld_stuck p])
  have b: "axios_get stuckWorld = Inr (JStr csv1)"
    by (simp add: stuckWorld_def sheetWorld_def)
  have r: "rows1 \<noteq> []" by (simp add: rows1_def)
  have "postQuery_index stuckWorld askReq = None"
    using r
    by (simp add: postQuery_index_def postQuery_index_try_def askReq_query truthy_def
        getRankData_index_string[OF b] parseCsv_csv1 g)
  with g show ?thesis by simp
qed


end
